theory Spec2Isabelle
  imports Main "HOL-Library.Char_ord" "HOL-Library.List_Lexorder" "HOL-Library.AList"
begin

section \<open>JavaScript values and strings\<close>

text \<open>
  A playbook is a JSON document. Objects are association lists in \<open>Object.keys\<close> order
  (keys distinct, none of them \<open>__proto__\<close> or \<open>toString\<close>), numbers are the integers,
  strings are ASCII character lists. A property that is absent reads as \<open>undefined\<close>, which
  is \<open>None\<close> of an option type.
\<close>

datatype json =
    JNull
  | JBool bool
  | JNum int
  | JStr string
  | JArr "json list"
  | JObj "(string \<times> json) list"

text \<open>What a \<open>throw\<close> inside the engines carries: a \<open>TypeError\<close> of the runtime, a failed
  file-system call, or \<open>new Error(message)\<close>.\<close>

datatype thrown = TypeError | IoError | Message string

definition digit_char :: "nat \<Rightarrow> char" where
  "digit_char d = ''0123456789abcdef'' ! d"

fun show_nat :: "nat \<Rightarrow> string" where
  "show_nat n = (if n < 10 then [digit_char n] else show_nat (n div 10) @ [digit_char (n mod 10)])"

declare show_nat.simps [simp del]

text \<open>\<open>Number.prototype.toString\<close> on an integer.\<close>

definition show_int :: "int \<Rightarrow> string" where
  "show_int i = (if i < 0 then ''-'' @ show_nat (nat (- i)) else show_nat (nat i))"

text \<open>\<open>Array.prototype.join\<close> on strings.\<close>

fun join :: "string \<Rightarrow> string list \<Rightarrow> string" where
  "join sep [] = []"
| "join sep [x] = x"
| "join sep (x # y # ys) = x @ sep @ join sep (y # ys)"

text \<open>\<open>ToString\<close>, as a template literal, \<open>RegExp.test\<close> and \<open>join\<close> apply it; inside
  \<open>join\<close> a \<open>null\<close> element is the empty string.\<close>

fun toString :: "json \<Rightarrow> string" where
  "toString JNull = ''null''"
| "toString (JBool b) = (if b then ''true'' else ''false'')"
| "toString (JNum n) = show_int n"
| "toString (JStr s) = s"
| "toString (JArr xs) = join '','' (map (\<lambda>x. if x = JNull then [] else toString x) xs)"
| "toString (JObj kvs) = ''[object Object]''"

definition template :: "json option \<Rightarrow> string" where
  "template v = (case v of None \<Rightarrow> ''undefined'' | Some j \<Rightarrow> toString j)"

text \<open>Truthiness of a value that may be \<open>undefined\<close>.\<close>

fun truthy :: "json option \<Rightarrow> bool" where
  "truthy None = False"
| "truthy (Some JNull) = False"
| "truthy (Some (JBool b)) = b"
| "truthy (Some (JNum n)) = (n \<noteq> 0)"
| "truthy (Some (JStr s)) = (s \<noteq> [])"
| "truthy (Some (JArr xs)) = True"
| "truthy (Some (JObj kvs)) = True"

text \<open>Property read \<open>v.name\<close> for the field names the engines use (none of them is a
  property of a primitive or of an array): a \<open>TypeError\<close> on \<open>undefined\<close> and \<open>null\<close>,
  the field of an object, \<open>undefined\<close> otherwise.\<close>

fun get_prop :: "json option \<Rightarrow> string \<Rightarrow> thrown + json option" where
  "get_prop None name = Inl TypeError"
| "get_prop (Some JNull) name = Inl TypeError"
| "get_prop (Some (JObj kvs)) name = Inr (map_of kvs name)"
| "get_prop (Some j) name = Inr None"

section \<open>JSON.stringify\<close>

definition hex4 :: "nat \<Rightarrow> string" where
  "hex4 n = [digit_char (n div 4096 mod 16), digit_char (n div 256 mod 16),
             digit_char (n div 16 mod 16), digit_char (n mod 16)]"

definition quote_char :: "char \<Rightarrow> string" where
  "quote_char c =
     (if c = CHR 0x22 then [CHR 0x5C, CHR 0x22]
      else if c = CHR 0x5C then [CHR 0x5C, CHR 0x5C]
      else if c = CHR 0x08 then [CHR 0x5C, CHR ''b'']
      else if c = CHR 0x09 then [CHR 0x5C, CHR ''t'']
      else if c = CHR 0x0A then [CHR 0x5C, CHR ''n'']
      else if c = CHR 0x0C then [CHR 0x5C, CHR ''f'']
      else if c = CHR 0x0D then [CHR 0x5C, CHR ''r'']
      else if (of_char c :: nat) < 32 then [CHR 0x5C, CHR ''u''] @ hex4 (of_char c)
      else [c])"

definition quote :: "string \<Rightarrow> string" where
  "quote s = [CHR 0x22] @ concat (map quote_char s) @ [CHR 0x22]"

definition own_keys :: "(string \<times> json) list \<Rightarrow> string list" where
  "own_keys kvs = remdups (map fst kvs)"

text \<open>The members of an object, one for each name of the property list that the object
  has, in the order of the property list; \<open>ms\<close> holds the serialized fields.\<close>

definition members :: "string list \<Rightarrow> (string \<times> string) list \<Rightarrow> string list" where
  "members ks ms = List.map_filter (\<lambda>k. map_option (\<lambda>s. quote k @ '':'' @ s) (map_of ms k)) ks"

text \<open>\<open>SerializeJSONProperty\<close> without indentation. With a property list (\<open>Some ks\<close>, from
  an array replacer) every object at every depth is serialized through that one list.\<close>

fun stringify :: "string list option \<Rightarrow> json \<Rightarrow> string" where
  "stringify K JNull = ''null''"
| "stringify K (JBool b) = (if b then ''true'' else ''false'')"
| "stringify K (JNum n) = show_int n"
| "stringify K (JStr s) = quote s"
| "stringify K (JArr xs) = ''['' @ join '','' (map (stringify K) xs) @ '']''"
| "stringify K (JObj kvs) =
     ''{'' @ join '',''
       (members (case K of None \<Rightarrow> own_keys kvs | Some ks \<Rightarrow> ks)
                (map (\<lambda>(k, v). (k, stringify K v)) kvs)) @ ''}''"

text \<open>\<open>JSON.stringify(value, replacer)\<close>: an array replacer becomes the property list, each
  name kept once, at its first place.\<close>

definition JSON_stringify :: "json \<Rightarrow> string list option \<Rightarrow> string" where
  "JSON_stringify v replacer = stringify (map_option (\<lambda>ks. rev (remdups (rev ks))) replacer) v"

text \<open>\<open>Object.keys\<close>: the index names of a string or an array, none for a boolean or a
  number, a \<open>TypeError\<close> for \<open>null\<close>.\<close>

fun Object_keys :: "json \<Rightarrow> thrown + string list" where
  "Object_keys JNull = Inl TypeError"
| "Object_keys (JBool b) = Inr []"
| "Object_keys (JNum n) = Inr []"
| "Object_keys (JStr s) = Inr (map show_nat [0..<length s])"
| "Object_keys (JArr xs) = Inr (map show_nat [0..<length xs])"
| "Object_keys (JObj kvs) = Inr (own_keys kvs)"

section \<open>VersionControlEngine: the checksum\<close>

text \<open>
  \<^verbatim>\<open>
  calculateChecksum(playbook) {
    const playbookString = JSON.stringify(playbook, Object.keys(playbook).sort());
    return crypto.createHash('sha256').update(playbookString).digest('hex');
  }
  \<close>
  The hash function \<open>H\<close> (SHA-256, hex digest) is a parameter.
\<close>

definition calculateChecksum :: "(string \<Rightarrow> string) \<Rightarrow> json \<Rightarrow> thrown + string" where
  "calculateChecksum H playbook =
     (case Object_keys playbook of
        Inl e \<Rightarrow> Inl e
      | Inr ks \<Rightarrow> Inr (H (JSON_stringify playbook (Some (sort ks)))))"

text \<open>The document that remains when every object, at every depth, keeps only the fields
  named in \<open>ks\<close> (listed in the order of \<open>ks\<close>).\<close>

fun prune :: "string list \<Rightarrow> json \<Rightarrow> json" where
  "prune ks (JArr xs) = JArr (map (prune ks) xs)"
| "prune ks (JObj kvs) =
     JObj (List.map_filter
             (\<lambda>k. map_option (Pair k) (map_of (map (\<lambda>(k, v). (k, prune ks v)) kvs) k)) ks)"
| "prune ks j = j"

section \<open>VersionControlEngine: version numbers\<close>

text \<open>\<open>String.prototype.split\<close> on a one-character separator.\<close>

fun split_on :: "char \<Rightarrow> string \<Rightarrow> string list" where
  "split_on c [] = [[]]"
| "split_on c (x # xs) =
     (if x = c then [] # split_on c xs
      else (case split_on c xs of [] \<Rightarrow> [[x]] | y # ys \<Rightarrow> (x # y) # ys))"

definition is_space :: "char \<Rightarrow> bool" where
  "is_space c = (c \<in> {CHR 0x09, CHR 0x0A, CHR 0x0B, CHR 0x0C, CHR 0x0D, CHR 0x20})"

definition digit_val :: "char \<Rightarrow> nat option" where
  "digit_val c =
     (let n = (of_char c :: nat) in
      if 48 \<le> n \<and> n \<le> 57 then Some (n - 48)
      else if 97 \<le> n \<and> n \<le> 122 then Some (n - 87)
      else if 65 \<le> n \<and> n \<le> 90 then Some (n - 55)
      else None)"

text \<open>The value of the longest prefix of digits of the radix; \<open>None\<close> when there is none.\<close>

fun parse_digits :: "nat \<Rightarrow> string \<Rightarrow> nat option \<Rightarrow> nat option" where
  "parse_digits r [] acc = acc"
| "parse_digits r (c # cs) acc =
     (case digit_val c of
        None \<Rightarrow> acc
      | Some d \<Rightarrow>
          if d < r
          then parse_digits r cs (Some (case acc of None \<Rightarrow> d | Some a \<Rightarrow> a * r + d))
          else acc)"

text \<open>\<open>parseInt(s)\<close> with no radix: leading white space, a sign, a \<open>0x\<close> prefix for
  radix 16, then the digits. \<open>None\<close> is \<open>NaN\<close>.\<close>

definition parseInt :: "string \<Rightarrow> int option" where
  "parseInt s =
     (let t = dropWhile is_space s;
          neg = (case t of [] \<Rightarrow> False | c # cs \<Rightarrow> c = CHR ''-'');
          u = (case t of [] \<Rightarrow> [] | c # cs \<Rightarrow> if c = CHR ''-'' \<or> c = CHR ''+'' then cs else t);
          hex = (case u of a # b # cs \<Rightarrow> a = CHR ''0'' \<and> (b = CHR ''x'' \<or> b = CHR ''X'') | _ \<Rightarrow> False);
          n = (if hex then parse_digits 16 (drop 2 u) None else parse_digits 10 u None)
      in map_option (\<lambda>n. if neg then - int n else int n) n)"

text \<open>\<open>parts[2] = v\<close>: an array shorter than three is extended, and \<open>join\<close> writes the
  holes as empty strings.\<close>

fun assign_third :: "string list \<Rightarrow> string \<Rightarrow> string list" where
  "assign_third (a # b # c # rest) v = a # b # v # rest"
| "assign_third [a, b] v = [a, b, v]"
| "assign_third [a] v = [a, [], v]"
| "assign_third [] v = [[], [], v]"

text \<open>
  \<^verbatim>\<open>
  const parts = currentVersion.version_number.split('.');
  parts[2] = (parseInt(parts[2]) + 1).toString();
  return parts.join('.');
  \<close>
\<close>

definition increment_patch :: "string \<Rightarrow> string" where
  "increment_patch version_number =
     (let parts = split_on (CHR ''.'') version_number;
          third = (case parts of a # b # c # rest \<Rightarrow> c | _ \<Rightarrow> ''undefined'')
      in join ''.'' (assign_third parts
           (case parseInt third of None \<Rightarrow> ''NaN'' | Some n \<Rightarrow> show_int (n + 1))))"

section \<open>VersionControlEngine: the state\<close>

record version_metadata =
  md_size :: nat
  md_platform :: "json option"
  md_category :: "json option"
  md_severity :: "json option"
  md_mitre_techniques :: "json option"
  md_tags :: json

text \<open>A version object. The fields that an object spread copies from another version are
  optional: spreading \<open>undefined\<close> copies nothing. Times are milliseconds since the epoch
  (the code stores their ISO string); \<open>null\<close> and \<open>undefined\<close> are both \<open>None\<close>.\<close>

record version =
  version_id :: string
  playbook_id :: "json option"
  playbook_name :: "json option"
  version_number :: "string option"
  branch :: string
  checksum :: "string option"
  created_at :: int
  created_by :: string
  change_description :: string
  parent_version :: "string option"
  playbook_snapshot :: "json option"
  metadata :: "version_metadata option"
  merge_source :: "string option"
  rollback_from :: "string option"

record audit_entry =
  audit_id :: string
  action :: string
  audit_version_id :: string
  audit_playbook_id :: "json option"
  audit_author :: string
  audit_timestamp :: int
  audit_description :: string
  audit_details :: "(string \<times> string) list"

text \<open>The engine's maps and its directory of version files (\<open>storage\<close>, by file name).\<close>

record vc_state =
  versions :: "string \<rightharpoonup> version"
  branches :: "string \<rightharpoonup> string"
  auditTrail :: "audit_entry list"
  storage :: "string \<rightharpoonup> version"

definition init_state :: vc_state where
  "init_state = \<lparr>versions = Map.empty, branches = Map.empty, auditTrail = [], storage = Map.empty\<rparr>"

text \<open>What one call reads from outside: the two \<open>uuidv4()\<close> results, the clock, and whether
  \<open>fs.writeJson\<close> rejects.\<close>

record env =
  uuid_version :: string
  uuid_audit :: string
  clock :: int
  fs_fails :: bool

text \<open>\<open>new Error(`<prefix>: ${error.message}`)\<close>, as every \<open>catch\<close> of the engine rethrows.\<close>

datatype error = Error string thrown

definition bindE :: "'e + 'a \<Rightarrow> ('a \<Rightarrow> 'e + 'b) \<Rightarrow> 'e + 'b" where
  "bindE m f = (case m of Inl e \<Rightarrow> Inl e | Inr x \<Rightarrow> f x)"

definition branch_key :: "json option \<Rightarrow> string \<Rightarrow> string" where
  "branch_key playbookId branchName = template playbookId @ '':'' @ branchName"

text \<open>
  \<^verbatim>\<open>
  const currentVersionId = this.branches.get(branchKey);
  if (!currentVersionId) { return '1.0.0'; }
  const currentVersion = this.versions.get(currentVersionId);
  if (!currentVersion) { return '1.0.0'; }
  \<close>
\<close>

definition getNextVersionNumber :: "vc_state \<Rightarrow> json option \<Rightarrow> string \<Rightarrow> thrown + string" where
  "getNextVersionNumber s playbookId branchName =
     (case branches s (branch_key playbookId branchName) of
        None \<Rightarrow> Inr ''1.0.0''
      | Some currentVersionId \<Rightarrow>
          if currentVersionId = [] then Inr ''1.0.0''
          else (case versions s currentVersionId of
                  None \<Rightarrow> Inr ''1.0.0''
                | Some currentVersion \<Rightarrow>
                    (case version_number currentVersion of
                       None \<Rightarrow> Inl TypeError
                     | Some n \<Rightarrow> Inr (increment_patch n))))"

text \<open>\<open>this.branches.get(branchKey) || null\<close>\<close>

definition getParentVersion :: "vc_state \<Rightarrow> json option \<Rightarrow> string \<Rightarrow> string option" where
  "getParentVersion s playbookId branchName =
     (case branches s (branch_key playbookId branchName) of
        None \<Rightarrow> None
      | Some i \<Rightarrow> if i = [] then None else Some i)"

text \<open>\<open>`v_${uuidv4().replace(/-/g, '_')}`\<close>\<close>

definition generateVersionId :: "string \<Rightarrow> string" where
  "generateVersionId uuid = ''v_'' @ map (\<lambda>c. if c = CHR ''-'' then CHR ''_'' else c) uuid"

text \<open>\<open>fs.writeJson(versionFile, version)\<close> on the file \<open><version_id>.json\<close>; a write that
  fails leaves the directory as it was.\<close>

definition persistVersion :: "env \<Rightarrow> version \<Rightarrow> vc_state \<Rightarrow> thrown + vc_state" where
  "persistVersion e v s =
     (if fs_fails e then Inl IoError
      else Inr (s\<lparr>storage := (storage s)(version_id v @ ''.json'' \<mapsto> v)\<rparr>))"

text \<open>\<open>addAuditEntry\<close>: append, and keep the last 5000 entries once there are more than
  10000.\<close>

definition addAuditEntry :: "audit_entry \<Rightarrow> vc_state \<Rightarrow> vc_state" where
  "addAuditEntry entry s =
     (let t = auditTrail s @ [entry]
      in s\<lparr>auditTrail := (if length t > 10000 then drop (length t - 5000) t else t)\<rparr>)"

section \<open>VersionControlEngine: the operations\<close>

text \<open>Each operation returns what the call returns or throws together with the state the
  call leaves behind: what was written before a \<open>throw\<close> stays written. Calls run one after
  the other, each to its end.\<close>

text \<open>\<open>JSON.parse(JSON.stringify(playbook))\<close>: on the values of \<open>json\<close> (no \<open>undefined\<close>, no
  function, no date) the copy has the fields and values of the original.\<close>

definition deep_clone :: "json \<Rightarrow> json" where
  "deep_clone playbook = playbook"

text \<open>\<open>v?.name\<close>\<close>

definition get_prop_opt :: "json option \<Rightarrow> string \<Rightarrow> json option" where
  "get_prop_opt v name = (case get_prop v name of Inl t \<Rightarrow> None | Inr r \<Rightarrow> r)"

text \<open>
  \<^verbatim>\<open>
  metadata: {
    size: JSON.stringify(playbook).length,
    platform: playbook.platform,
    category: playbook.use_case.use_case_metadata.category,
    severity: playbook.use_case.risk_model.base_severity,
    mitre_techniques: playbook.use_case.mitre_techniques,
    tags: playbook.metadata?.tags || []
  }
  \<close>
\<close>

definition version_metadata_of :: "json \<Rightarrow> thrown + version_metadata" where
  "version_metadata_of playbook =
     bindE (get_prop (Some playbook) ''platform'') (\<lambda>platform.
     bindE (get_prop (Some playbook) ''use_case'') (\<lambda>use_case.
     bindE (get_prop use_case ''use_case_metadata'') (\<lambda>use_case_metadata.
     bindE (get_prop use_case_metadata ''category'') (\<lambda>category.
     bindE (get_prop use_case ''risk_model'') (\<lambda>risk_model.
     bindE (get_prop risk_model ''base_severity'') (\<lambda>severity.
     bindE (get_prop use_case ''mitre_techniques'') (\<lambda>techniques.
     bindE (get_prop (Some playbook) ''metadata'') (\<lambda>md.
       Inr \<lparr>md_size = length (JSON_stringify playbook None),
            md_platform = platform,
            md_category = category,
            md_severity = severity,
            md_mitre_techniques = techniques,
            md_tags = (case get_prop_opt md ''tags'' of
                         None \<Rightarrow> JArr []
                       | Some t \<Rightarrow> if truthy (Some t) then t else JArr [])\<rparr>))))))))"

text \<open>The object literal of \<open>createVersion\<close>, its fields evaluated in the order written.\<close>

definition new_version ::
  "(string \<Rightarrow> string) \<Rightarrow> env \<Rightarrow> json \<Rightarrow> string \<Rightarrow> string \<Rightarrow> string \<Rightarrow> vc_state \<Rightarrow> thrown + version" where
  "new_version H e playbook changeDescription author branchName s =
     bindE (calculateChecksum H playbook) (\<lambda>digest.
     bindE (get_prop (Some playbook) ''playbook_id'') (\<lambda>pid.
     bindE (get_prop (Some playbook) ''playbook_name'') (\<lambda>pname.
     bindE (getNextVersionNumber s pid branchName) (\<lambda>number.
     bindE (version_metadata_of playbook) (\<lambda>md.
       Inr \<lparr>version_id = generateVersionId (uuid_version e),
            playbook_id = pid,
            playbook_name = pname,
            version_number = Some number,
            branch = branchName,
            checksum = Some digest,
            created_at = clock e,
            created_by = author,
            change_description = changeDescription,
            parent_version = getParentVersion s pid branchName,
            playbook_snapshot = Some (deep_clone playbook),
            metadata = Some md,
            merge_source = None,
            rollback_from = None\<rparr>)))))"

text \<open>
  \<^verbatim>\<open>
  this.versions.set(versionId, version);
  this.branches.set(`${playbook.playbook_id}:${branch}`, versionId);
  await this.persistVersion(version);
  this.addAuditEntry({action: 'create_version', ...});
  return version;
  \<close>
  inside \<open>try { ... } catch (error) { throw new Error(`Version creation failed: ...`) }\<close>.
\<close>

definition createVersion ::
  "(string \<Rightarrow> string) \<Rightarrow> env \<Rightarrow> json \<Rightarrow> string \<Rightarrow> string \<Rightarrow> string \<Rightarrow> vc_state
     \<Rightarrow> (error + version) \<times> vc_state" where
  "createVersion H e playbook changeDescription author branchName s =
     (case new_version H e playbook changeDescription author branchName s of
        Inl t \<Rightarrow> (Inl (Error ''Version creation failed'' t), s)
      | Inr v \<Rightarrow>
          let s1 = s\<lparr>versions := (versions s)(version_id v \<mapsto> v)\<rparr>;
              s2 = s1\<lparr>branches := (branches s1)(branch_key (playbook_id v) branchName \<mapsto> version_id v)\<rparr>
          in (case persistVersion e v s2 of
                Inl t \<Rightarrow> (Inl (Error ''Version creation failed'' t), s2)
              | Inr s3 \<Rightarrow>
                  (Inr v,
                   addAuditEntry
                     \<lparr>audit_id = uuid_audit e, action = ''create_version'',
                      audit_version_id = version_id v, audit_playbook_id = playbook_id v,
                      audit_author = author, audit_timestamp = clock e,
                      audit_description = changeDescription,
                      audit_details = [(''checksum'', template (map_option JStr (checksum v)))]\<rparr>
                     s3)))"

text \<open>The object literals of \<open>createBranch\<close>, \<open>mergeBranch\<close> and \<open>rollbackToVersion\<close>: a
  spread of a stored version, then the fields that are set anew.\<close>

definition branch_version :: "env \<Rightarrow> string \<Rightarrow> string \<Rightarrow> string \<Rightarrow> version \<Rightarrow> version" where
  "branch_version e branchName fromVersionId author fromVersion =
     fromVersion
       \<lparr>version_id := generateVersionId (uuid_version e),
        branch := branchName,
        created_at := clock e,
        created_by := author,
        change_description := ''Created branch '' @ branchName @ '' from version ''
            @ template (map_option JStr (version_number fromVersion)),
        parent_version := Some fromVersionId\<rparr>"

definition createBranch ::
  "env \<Rightarrow> string \<Rightarrow> string \<Rightarrow> string \<Rightarrow> string \<Rightarrow> vc_state \<Rightarrow> (error + version) \<times> vc_state" where
  "createBranch e playbookId branchName fromVersionId author s =
     (case versions s fromVersionId of
        None \<Rightarrow> (Inl (Error ''Branch creation failed'' (Message ''Source version not found'')), s)
      | Some fromVersion \<Rightarrow>
          if playbook_id fromVersion \<noteq> Some (JStr playbookId)
          then (Inl (Error ''Branch creation failed''
                       (Message ''Source version does not belong to specified playbook'')), s)
          else if branches s (branch_key (Some (JStr playbookId)) branchName) \<noteq> None
          then (Inl (Error ''Branch creation failed''
                       (Message (''Branch '' @ branchName @ '' already exists''))), s)
          else
            let branchVersion = branch_version e branchName fromVersionId author fromVersion;
                s1 = s\<lparr>versions := (versions s)(version_id branchVersion \<mapsto> branchVersion)\<rparr>;
                s2 = s1\<lparr>branches := (branches s1)(branch_key (Some (JStr playbookId)) branchName
                                                     \<mapsto> version_id branchVersion)\<rparr>
            in (case persistVersion e branchVersion s2 of
                  Inl t \<Rightarrow> (Inl (Error ''Branch creation failed'' t), s2)
                | Inr s3 \<Rightarrow>
                    (Inr branchVersion,
                     addAuditEntry
                       \<lparr>audit_id = uuid_audit e, action = ''create_branch'',
                        audit_version_id = version_id branchVersion,
                        audit_playbook_id = Some (JStr playbookId),
                        audit_author = author, audit_timestamp = created_at branchVersion,
                        audit_description = ''Created branch '' @ branchName,
                        audit_details = [(''from_version'', fromVersionId)]\<rparr>
                       s3)))"

text \<open>\<open>{...sourceVersion, ...}\<close>: the spread of \<open>undefined\<close> has no field.\<close>

definition spread :: "version option \<Rightarrow> version" where
  "spread v =
     (case v of
        Some x \<Rightarrow> x
      | None \<Rightarrow>
          \<lparr>version_id = [], playbook_id = None, playbook_name = None, version_number = None,
           branch = [], checksum = None, created_at = 0, created_by = [],
           change_description = [], parent_version = None, playbook_snapshot = None,
           metadata = None, merge_source = None, rollback_from = None\<rparr>)"

definition merge_version ::
  "env \<Rightarrow> string \<Rightarrow> string \<Rightarrow> string \<Rightarrow> string option \<Rightarrow> string \<Rightarrow> version option \<Rightarrow> version" where
  "merge_version e sourceBranch targetBranch author targetVersionId sourceVersionId sourceVersion =
     (spread sourceVersion)
       \<lparr>version_id := generateVersionId (uuid_version e),
        branch := targetBranch,
        created_at := clock e,
        created_by := author,
        change_description := ''Merged branch '' @ sourceBranch @ '' into '' @ targetBranch,
        parent_version := targetVersionId,
        merge_source := Some sourceVersionId\<rparr>"

definition mergeBranch ::
  "env \<Rightarrow> string \<Rightarrow> string \<Rightarrow> string \<Rightarrow> string \<Rightarrow> vc_state \<Rightarrow> (error + version) \<times> vc_state" where
  "mergeBranch e playbookId sourceBranch targetBranch author s =
     (let sourceBranchKey = branch_key (Some (JStr playbookId)) sourceBranch;
          targetBranchKey = branch_key (Some (JStr playbookId)) targetBranch;
          targetVersionId = branches s targetBranchKey;
          notFound = (Inl (Error ''Branch merge failed''
                             (Message (''Source branch '' @ sourceBranch @ '' not found''))), s)
      in case branches s sourceBranchKey of
           None \<Rightarrow> notFound
         | Some sourceVersionId \<Rightarrow>
             if sourceVersionId = [] then notFound
             else
               let sourceVersion = versions s sourceVersionId;
                   mergeVersion = merge_version e sourceBranch targetBranch author
                                    targetVersionId sourceVersionId sourceVersion;
                   s1 = s\<lparr>versions := (versions s)(version_id mergeVersion \<mapsto> mergeVersion)\<rparr>;
                   s2 = s1\<lparr>branches := (branches s1)(targetBranchKey \<mapsto> version_id mergeVersion)\<rparr>;
                   s3 = s2\<lparr>branches := (branches s2)(sourceBranchKey := None)\<rparr>
               in (case persistVersion e mergeVersion s3 of
                     Inl t \<Rightarrow> (Inl (Error ''Branch merge failed'' t), s3)
                   | Inr s4 \<Rightarrow>
                       (Inr mergeVersion,
                        addAuditEntry
                          \<lparr>audit_id = uuid_audit e, action = ''merge_branch'',
                           audit_version_id = version_id mergeVersion,
                           audit_playbook_id = Some (JStr playbookId),
                           audit_author = author, audit_timestamp = created_at mergeVersion,
                           audit_description = ''Merged '' @ sourceBranch @ '' into '' @ targetBranch,
                           audit_details = [(''source_branch'', sourceBranch),
                                            (''target_branch'', targetBranch)]\<rparr>
                          s4)))"

definition rollback_version ::
  "env \<Rightarrow> string \<Rightarrow> string \<Rightarrow> string \<Rightarrow> string \<Rightarrow> string option \<Rightarrow> version \<Rightarrow> version" where
  "rollback_version e versionId author reason number head targetVersion =
     targetVersion
       \<lparr>version_id := generateVersionId (uuid_version e),
        version_number := Some number,
        created_at := clock e,
        created_by := author,
        change_description := ''Rollback to version ''
            @ template (map_option JStr (version_number targetVersion))
            @ (if reason \<noteq> [] then '': '' @ reason else []),
        parent_version := head,
        rollback_from := Some versionId\<rparr>"

definition rollbackToVersion ::
  "env \<Rightarrow> string \<Rightarrow> string \<Rightarrow> string \<Rightarrow> string \<Rightarrow> vc_state \<Rightarrow> (error + version) \<times> vc_state" where
  "rollbackToVersion e playbookId versionId author reason s =
     (case versions s versionId of
        None \<Rightarrow> (Inl (Error ''Rollback failed'' (Message ''Target version not found'')), s)
      | Some targetVersion \<Rightarrow>
          if playbook_id targetVersion \<noteq> Some (JStr playbookId)
          then (Inl (Error ''Rollback failed''
                       (Message ''Version does not belong to specified playbook'')), s)
          else
            (case getNextVersionNumber s (Some (JStr playbookId)) (branch targetVersion) of
               Inl t \<Rightarrow> (Inl (Error ''Rollback failed'' t), s)
             | Inr number \<Rightarrow>
                 let branchKey = branch_key (Some (JStr playbookId)) (branch targetVersion);
                     rollbackVersion = rollback_version e versionId author reason number
                                         (branches s branchKey) targetVersion;
                     s1 = s\<lparr>versions := (versions s)(version_id rollbackVersion \<mapsto> rollbackVersion)\<rparr>;
                     s2 = s1\<lparr>branches := (branches s1)(branchKey \<mapsto> version_id rollbackVersion)\<rparr>
                 in (case persistVersion e rollbackVersion s2 of
                       Inl t \<Rightarrow> (Inl (Error ''Rollback failed'' t), s2)
                     | Inr s3 \<Rightarrow>
                         (Inr rollbackVersion,
                          addAuditEntry
                            \<lparr>audit_id = uuid_audit e, action = ''rollback'',
                             audit_version_id = version_id rollbackVersion,
                             audit_playbook_id = Some (JStr playbookId),
                             audit_author = author, audit_timestamp = created_at rollbackVersion,
                             audit_description = ''Rollback to version ''
                                 @ template (map_option JStr (version_number targetVersion)),
                             audit_details = [(''rollback_to'', versionId), (''reason'', reason)]\<rparr>
                            s3))))"

definition ends_with :: "string \<Rightarrow> string \<Rightarrow> bool" where
  "ends_with suffix s = (length suffix \<le> length s \<and> drop (length s - length suffix) s = suffix)"

text \<open>
  \<^verbatim>\<open>
  for (const file of versionFiles) {
    const version = await fs.readJson(versionPath);
    this.versions.set(version.version_id, version);
    const branchKey = `${version.playbook_id}:${version.branch}`;
    this.branches.set(branchKey, version.version_id);
  }
  \<close>
  inside one \<open>try\<close>: a file that cannot be read ends the loop.\<close>

fun load_files :: "string list \<Rightarrow> vc_state \<Rightarrow> vc_state" where
  "load_files [] s = s"
| "load_files (file # rest) s =
     (case storage s file of
        None \<Rightarrow> s
      | Some v \<Rightarrow>
          load_files rest
            (s\<lparr>versions := (versions s)(version_id v \<mapsto> v),
               branches := (branches s)(branch_key (playbook_id v) (branch v) \<mapsto> version_id v)\<rparr>))"

text \<open>\<open>loadVersions\<close>; \<open>files\<close> is what \<open>fs.readdir\<close> returns, in its order.\<close>

definition loadVersions :: "string list \<Rightarrow> vc_state \<Rightarrow> vc_state" where
  "loadVersions files s = load_files (filter (ends_with ''.json'') files) s"

text \<open>A new process over the same directory: the constructor's empty maps, the files as they
  are.\<close>

definition restart :: "vc_state \<Rightarrow> vc_state" where
  "restart s = init_state\<lparr>storage := storage s\<rparr>"

text \<open>The states the engine reaches from its constructor, over an empty directory, by the four
  operations that store a version, with any arguments and any outcome of the file write, by
  \<open>loadVersions\<close> and by restarts. (Tags, and \<open>cleanupOldVersions\<close>, which removes only versions
  that no branch points to, are not part of the model.)\<close>

inductive reachable :: "(string \<Rightarrow> string) \<Rightarrow> vc_state \<Rightarrow> bool" for H where
  r_init: "reachable H init_state"
| r_createVersion:
    "reachable H s \<Longrightarrow> reachable H (snd (createVersion H e playbook changeDescription author branchName s))"
| r_createBranch:
    "reachable H s \<Longrightarrow> reachable H (snd (createBranch e playbookId branchName fromVersionId author s))"
| r_mergeBranch:
    "reachable H s \<Longrightarrow> reachable H (snd (mergeBranch e playbookId sourceBranch targetBranch author s))"
| r_rollbackToVersion:
    "reachable H s \<Longrightarrow> reachable H (snd (rollbackToVersion e playbookId versionId author reason s))"
| r_loadVersions:
    "reachable H s \<Longrightarrow> reachable H (loadVersions files s)"
| r_restart:
    "reachable H s \<Longrightarrow> reachable H (restart s)"

section \<open>ApprovalGateEngine: configuration and data\<close>

datatype approval_level = level_1 | level_2 | level_3

record business_hours_config =
  enabled :: bool
  start_hour :: int
  end_hour :: int
  timezone :: string

record approval_required_for =
  privileged_accounts :: bool
  critical_assets :: bool
  high_risk_score :: int
  certain_techniques :: "string list"
  certain_actions :: "string list"
  business_hours :: business_hours_config

record escalation_config =
  auto_approve_after :: int
  escalate_after :: int
  max_approval_time :: int

record notifications_config =
  email_enabled :: bool
  slack_enabled :: bool
  teams_enabled :: bool

text \<open>The configuration document; \<open>approvers\<close> is the object of rosters by level, a level
  without a roster being \<open>None\<close>.\<close>

record approval_config =
  required_for :: approval_required_for
  approvers :: "approval_level \<Rightarrow> string list option"
  escalation :: escalation_config
  notifications :: notifications_config

definition getDefaultApprovalConfig :: approval_config where
  "getDefaultApprovalConfig =
     \<lparr>required_for =
        \<lparr>privileged_accounts = True, critical_assets = True, high_risk_score = 80,
         certain_techniques = [''T1098'', ''T1110'', ''T1110.003''],
         certain_actions = [''isolate_host'', ''block_source_ip'', ''disable_account''],
         business_hours = \<lparr>enabled = True, start_hour = 9, end_hour = 17, timezone = ''UTC''\<rparr>\<rparr>,
      approvers = (\<lambda>l. case l of
                     level_1 \<Rightarrow> Some [''security_analyst'', ''team_lead'']
                   | level_2 \<Rightarrow> Some [''security_manager'', ''incident_commander'']
                   | level_3 \<Rightarrow> Some [''ciso'', ''director_security'']),
      escalation = \<lparr>auto_approve_after = 24, escalate_after = 4, max_approval_time = 48\<rparr>,
      notifications = \<lparr>email_enabled = True, slack_enabled = True, teams_enabled = False\<rparr>\<rparr>"

text \<open>The playbook and the execution context of an evaluation are JSON documents, as the
  request body holds them; the engine reads their fields as they come, and a read through a
  field that is absent or \<open>null\<close> throws.\<close>

record gate =
  gate_name :: string
  gate_triggered :: bool
  gate_level :: approval_level
  gate_reason :: string

record approval_decision =
  d_requires_approval :: bool
  d_approval_level :: "approval_level option"
  d_gates_triggered :: "gate list"
  d_auto_approve :: bool
  d_reason :: string
  d_approval_id :: "string option"
  d_expires_at :: "int option"

datatype status = pending | approved | rejected | expired

record playbook_summary =
  summary_name :: "json option"
  summary_category :: "json option"
  summary_severity :: "json option"
  summary_risk_score :: "json option"
  summary_techniques :: "json option"
  summary_actions :: json

text \<open>An approval request; the fields of the terminal transitions and of an escalation are
  absent (\<open>None\<close>) until they are set. Times are milliseconds since the epoch.\<close>

record approval_request =
  approval_id :: "string option"
  req_playbook_id :: "json option"
  req_playbook_name :: "json option"
  approval_level :: "approval_level option"
  gates_triggered :: "gate list"
  req_reason :: string
  status :: status
  req_created_at :: int
  expires_at :: "int option"
  requested_by :: json
  req_context :: json
  req_summary :: playbook_summary
  req_approvers :: "string list"
  notifications_sent :: bool
  escalated_at :: "int option"
  approved_by :: "string option"
  approved_at :: "int option"
  approval_comments :: "string option"
  rejected_by :: "string option"
  rejected_at :: "int option"
  rejection_reason :: "string option"

record history_entry =
  h_action :: string
  h_approval_id :: string
  h_approver :: string
  h_timestamp :: int
  h_text :: "string option"

text \<open>\<open>approvalStore\<close> is a \<open>Map\<close>: its entries in insertion order, \<open>set\<close> on a key that is
  present keeping the key's place. A key is the \<open>approval_id\<close> of a decision, a string or
  \<open>null\<close> (\<open>None\<close>).\<close>

record gate_state =
  approvalStore :: "(string option \<times> approval_request) list"
  approvalHistory :: "history_entry list"

text \<open>What one call reads from outside: \<open>uuidv4()\<close>, \<open>new Date()\<close> in milliseconds, and the
  local hour \<open>getHours()\<close> of that date.\<close>

record gate_env =
  uuid :: string
  now :: int
  current_hour :: int

section \<open>ApprovalGateEngine: the patterns\<close>

definition lower :: "char \<Rightarrow> char" where
  "lower c = (let n = (of_char c :: nat) in if 65 \<le> n \<and> n \<le> 90 then char_of (n + 32) else c)"

definition starts_with :: "string \<Rightarrow> string \<Rightarrow> bool" where
  "starts_with p s = (take (length p) s = p)"

text \<open>\<open>/p/i.test(s)\<close> for a pattern \<open>p\<close> of lower-case letters: \<open>p\<close> occurs in \<open>s\<close>, letter
  case aside.\<close>

fun occurs :: "string \<Rightarrow> string \<Rightarrow> bool" where
  "occurs p [] = (p = [])"
| "occurs p (c # cs) = (starts_with p (c # cs) \<or> occurs p cs)"

definition test_i :: "string \<Rightarrow> string \<Rightarrow> bool" where
  "test_i p s = occurs p (map lower s)"

text \<open>\<open>/p$/i.test(s)\<close>\<close>

definition test_end_i :: "string \<Rightarrow> string \<Rightarrow> bool" where
  "test_end_i p s = (length p \<le> length s \<and> drop (length s - length p) (map lower s) = p)"

text \<open>\<open>q\<close> after any run of characters other than line terminators.\<close>

fun after_dots :: "string \<Rightarrow> string \<Rightarrow> bool" where
  "after_dots q [] = (q = [])"
| "after_dots q (c # cs) =
     (starts_with q (c # cs) \<or> (c \<noteq> CHR 0x0A \<and> c \<noteq> CHR 0x0D \<and> after_dots q cs))"

fun occurs_then :: "string \<Rightarrow> string \<Rightarrow> string \<Rightarrow> bool" where
  "occurs_then p q [] = (p = [] \<and> q = [])"
| "occurs_then p q (c # cs) =
     ((starts_with p (c # cs) \<and> after_dots q (drop (length p) (c # cs))) \<or> occurs_then p q cs)"

text \<open>\<open>/p.*q/i.test(s)\<close>\<close>

definition test_between_i :: "string \<Rightarrow> string \<Rightarrow> string \<Rightarrow> bool" where
  "test_between_i p q s = occurs_then p q (map lower s)"

definition isPrivilegedAccount :: "string \<Rightarrow> bool" where
  "isPrivilegedAccount username =
     (test_i ''admin'' username \<or> test_i ''administrator'' username \<or> test_i ''root'' username
      \<or> test_end_i ''sa'' username \<or> test_i ''service'' username
      \<or> test_i ''privileged'' username \<or> test_i ''elevated'' username \<or> test_i ''sudo'' username
      \<or> test_between_i ''domain'' ''admin'' username
      \<or> test_between_i ''enterprise'' ''admin'' username)"

definition isHighlyPrivileged :: "string \<Rightarrow> bool" where
  "isHighlyPrivileged username =
     (test_between_i ''domain'' ''admin'' username
      \<or> test_between_i ''enterprise'' ''admin'' username
      \<or> test_i ''ciso'' username
      \<or> test_between_i ''security'' ''admin'' username)"

text \<open>\<open>/dc\d*/i\<close> matches where \<open>dc\<close> occurs: the digits are optional.\<close>

definition isCriticalAsset :: "string \<Rightarrow> bool" where
  "isCriticalAsset hostname =
     (test_i ''dc'' hostname \<or> test_between_i ''domain'' ''controller'' hostname
      \<or> test_between_i ''ad'' ''server'' hostname \<or> test_i ''database'' hostname
      \<or> test_between_i ''db'' ''server'' hostname \<or> test_i ''production'' hostname
      \<or> test_i ''finance'' hostname \<or> test_i ''hr'' hostname
      \<or> test_i ''executive'' hostname \<or> test_i ''critical'' hostname)"

definition isHighlyCriticalAsset :: "string \<Rightarrow> bool" where
  "isHighlyCriticalAsset hostname =
     (test_i ''dc'' hostname \<or> test_between_i ''domain'' ''controller'' hostname
      \<or> test_between_i ''production'' ''db'' hostname
      \<or> test_between_i ''finance'' ''db'' hostname)"

text \<open>\<open>techniques.some(tech => highRiskTechniques.includes(tech))\<close> on the elements of an
  array: \<open>includes\<close> finds an element that is one of the strings.\<close>

definition hasHighRiskTechniques :: "json list \<Rightarrow> bool" where
  "hasHighRiskTechniques techniques =
     (\<exists>tech \<in> set techniques. tech \<in> set (map JStr [''T1098'', ''T1110'']))"

definition hasHighRiskActions :: "json list \<Rightarrow> bool" where
  "hasHighRiskActions actions =
     (\<exists>a \<in> set actions. a \<in> set (map JStr [''isolate_host'', ''disable_account'']))"

section \<open>ApprovalGateEngine: the gates\<close>

text \<open>\<open>a || b\<close>\<close>

definition js_or :: "json option \<Rightarrow> json \<Rightarrow> json" where
  "js_or a b = (case a of None \<Rightarrow> b | Some j \<Rightarrow> if truthy (Some j) then j else b)"

text \<open>The receiver of \<open>.filter(...)\<close> and \<open>.find(...)\<close>: the elements of an array; on any other
  value the call throws a \<open>TypeError\<close>, the property being \<open>undefined\<close> or not a function.\<close>

fun array_of :: "json option \<Rightarrow> thrown + json list" where
  "array_of (Some (JArr xs)) = Inr xs"
| "array_of v = Inl TypeError"

text \<open>The comparison \<open>v >= n\<close> of a value with a number \<open>n\<close>. \<open>undefined\<close> and an object are
  \<open>NaN\<close>, which is not at least anything; \<open>null\<close> and \<open>false\<close> are 0, \<open>true\<close> is 1. A string,
  and an array through its \<open>ToString\<close>, is read as a number by the runtime's
  \<open>StringToNumber\<close>, which is a parameter here: \<open>N s n\<close> is
  \<open>StringToNumber(s) >= n\<close>.\<close>

fun js_ge :: "(string \<Rightarrow> int \<Rightarrow> bool) \<Rightarrow> json option \<Rightarrow> int \<Rightarrow> bool" where
  "js_ge N None n = False"
| "js_ge N (Some JNull) n = (0 \<ge> n)"
| "js_ge N (Some (JBool b)) n = ((if b then 1 else 0) \<ge> n)"
| "js_ge N (Some (JNum m)) n = (m \<ge> n)"
| "js_ge N (Some (JStr s)) n = N s n"
| "js_ge N (Some (JArr xs)) n = N (toString (JArr xs)) n"
| "js_ge N (Some (JObj kvs)) n = False"

text \<open>
  \<^verbatim>\<open>
  const normalizedFields = playbook.use_case.normalized_fields;
  const username = normalizedFields.username;
  if (username && this.isPrivilegedAccount(username)) {
    gate.triggered = true;
    gate.reason = `Privileged account detected: ${username}`;
    gate.approval_level = this.isHighlyPrivileged(username) ? 'level_2' : 'level_1';
  }
  return gate;
  \<close>
  \<open>RegExp.test\<close> reads its argument through \<open>ToString\<close>.
\<close>

definition checkPrivilegedAccountGate :: "json \<Rightarrow> thrown + gate" where
  "checkPrivilegedAccountGate playbook =
     (let g = \<lparr>gate_name = ''privileged_account'', gate_triggered = False,
                gate_level = level_1, gate_reason = []\<rparr>
      in bindE (get_prop (Some playbook) ''use_case'') (\<lambda>use_case.
         bindE (get_prop use_case ''normalized_fields'') (\<lambda>normalizedFields.
         bindE (get_prop normalizedFields ''username'') (\<lambda>username.
           Inr (if truthy username \<and> isPrivilegedAccount (template username)
                then g\<lparr>gate_triggered := True,
                       gate_reason := ''Privileged account detected: '' @ template username,
                       gate_level := (if isHighlyPrivileged (template username)
                                      then level_2 else level_1)\<rparr>
                else g)))))"

definition checkCriticalAssetGate :: "json \<Rightarrow> thrown + gate" where
  "checkCriticalAssetGate playbook =
     (let g = \<lparr>gate_name = ''critical_asset'', gate_triggered = False,
                gate_level = level_2, gate_reason = []\<rparr>
      in bindE (get_prop (Some playbook) ''use_case'') (\<lambda>use_case.
         bindE (get_prop use_case ''normalized_fields'') (\<lambda>normalizedFields.
         bindE (get_prop normalizedFields ''hostname'') (\<lambda>hostname.
           Inr (if truthy hostname \<and> isCriticalAsset (template hostname)
                then g\<lparr>gate_triggered := True,
                       gate_reason := ''Critical asset detected: '' @ template hostname,
                       gate_level := (if isHighlyCriticalAsset (template hostname)
                                      then level_3 else level_2)\<rparr>
                else g)))))"

text \<open>
  \<^verbatim>\<open>
  const riskScore = playbook.use_case.risk_model.risk_score;
  const threshold = this.approvalConfig.approval_required_for.high_risk_score;
  if (riskScore >= threshold) {
    gate.triggered = true;
    gate.reason = `High risk score: ${riskScore} (threshold: ${threshold})`;
    gate.approval_level = riskScore >= 90 ? 'level_2' : 'level_1';
  }
  \<close>
\<close>

definition checkRiskScoreGate ::
  "(string \<Rightarrow> int \<Rightarrow> bool) \<Rightarrow> approval_config \<Rightarrow> json \<Rightarrow> thrown + gate" where
  "checkRiskScoreGate N cfg playbook =
     (let g = \<lparr>gate_name = ''risk_score'', gate_triggered = False,
                gate_level = level_1, gate_reason = []\<rparr>
      in bindE (get_prop (Some playbook) ''use_case'') (\<lambda>use_case.
         bindE (get_prop use_case ''risk_model'') (\<lambda>risk_model.
         bindE (get_prop risk_model ''risk_score'') (\<lambda>riskScore.
           let threshold = high_risk_score (required_for cfg)
           in Inr (if js_ge N riskScore threshold
                   then g\<lparr>gate_triggered := True,
                          gate_reason := ''High risk score: '' @ template riskScore
                              @ '' (threshold: '' @ show_int threshold @ '')'',
                          gate_level := (if js_ge N riskScore 90 then level_2 else level_1)\<rparr>
                   else g)))))"

text \<open>
  \<^verbatim>\<open>
  const techniques = playbook.use_case.mitre_techniques;
  const restrictedTechniques = this.approvalConfig.approval_required_for.certain_techniques;
  const matchingTechniques = techniques.filter(tech => restrictedTechniques.includes(tech));
  if (matchingTechniques.length > 0) {
    gate.triggered = true;
    gate.reason = `Restricted MITRE techniques: ${matchingTechniques.join(', ')}`;
    gate.approval_level = this.hasHighRiskTechniques(matchingTechniques) ? 'level_2' : 'level_1';
  }
  \<close>
  \<open>includes\<close> finds an element in the list of strings when the element is one of the
  strings.
\<close>

definition checkTechniqueGate :: "approval_config \<Rightarrow> json \<Rightarrow> thrown + gate" where
  "checkTechniqueGate cfg playbook =
     (let g = \<lparr>gate_name = ''technique'', gate_triggered = False,
                gate_level = level_1, gate_reason = []\<rparr>
      in bindE (get_prop (Some playbook) ''use_case'') (\<lambda>use_case.
         bindE (get_prop use_case ''mitre_techniques'') (\<lambda>mitre_techniques.
         bindE (array_of mitre_techniques) (\<lambda>techniques.
           let restrictedTechniques = certain_techniques (required_for cfg);
               matchingTechniques =
                 filter (\<lambda>tech. tech \<in> set (map JStr restrictedTechniques)) techniques
           in Inr (if length matchingTechniques > 0
                   then g\<lparr>gate_triggered := True,
                          gate_reason := ''Restricted MITRE techniques: ''
                              @ join '', '' (map toString matchingTechniques),
                          gate_level := (if hasHighRiskTechniques matchingTechniques
                                         then level_2 else level_1)\<rparr>
                   else g)))))"

text \<open>\<open>const actions = playbook.actions?.automated_actions || [];\<close> and then as for the
  techniques.\<close>

definition checkActionGate :: "approval_config \<Rightarrow> json \<Rightarrow> thrown + gate" where
  "checkActionGate cfg playbook =
     (let g = \<lparr>gate_name = ''action'', gate_triggered = False,
                gate_level = level_1, gate_reason = []\<rparr>
      in bindE (get_prop (Some playbook) ''actions'') (\<lambda>playbook_actions.
         bindE (array_of (Some (js_or (get_prop_opt playbook_actions ''automated_actions'')
                                  (JArr [])))) (\<lambda>actions.
           let restrictedActions = certain_actions (required_for cfg);
               matchingActions = filter (\<lambda>a. a \<in> set (map JStr restrictedActions)) actions
           in Inr (if length matchingActions > 0
                   then g\<lparr>gate_triggered := True,
                          gate_reason := ''Restricted actions: ''
                              @ join '', '' (map toString matchingActions),
                          gate_level := (if hasHighRiskActions matchingActions
                                         then level_2 else level_1)\<rparr>
                   else g))))"

text \<open>\<open>currentHour >= config.start_hour && currentHour < config.end_hour\<close>, on the local hour
  of the process.\<close>

definition isBusinessHours :: "gate_env \<Rightarrow> business_hours_config \<Rightarrow> bool" where
  "isBusinessHours e config = (current_hour e \<ge> start_hour config \<and> current_hour e < end_hour config)"

definition checkBusinessHoursGate :: "approval_config \<Rightarrow> gate_env \<Rightarrow> gate" where
  "checkBusinessHoursGate cfg e =
     (let g = \<lparr>gate_name = ''business_hours'', gate_triggered = False,
                gate_level = level_1, gate_reason = []\<rparr>;
          config = business_hours (required_for cfg)
      in if enabled config \<and> \<not> isBusinessHours e config
         then g\<lparr>gate_triggered := True,
                gate_reason := ''Execution outside business hours'',
                gate_level := level_1\<rparr>
         else g)"

text \<open>
  \<^verbatim>\<open>
  riskAdjustments.find(adj =>
    adj.condition === 'high_critical_asset' || adj.condition === 'server_host')
  \<close>
  The elements are visited in order up to the first that matches; reading \<open>condition\<close> of an
  element \<open>null\<close> throws.
\<close>

fun find_adjustment :: "json list \<Rightarrow> thrown + json option" where
  "find_adjustment [] = Inr None"
| "find_adjustment (adj # rest) =
     (case get_prop (Some adj) ''condition'' of
        Inl t \<Rightarrow> Inl t
      | Inr c \<Rightarrow>
          if c = Some (JStr ''high_critical_asset'') \<or> c = Some (JStr ''server_host'')
          then Inr (Some adj)
          else find_adjustment rest)"

text \<open>
  \<^verbatim>\<open>
  const assetContext = playbook.use_case.asset_context;
  if (assetContext?.asset_criticality_aware) {
    const riskAdjustments = playbook.use_case.risk_model.risk_adjustments || [];
    const highCriticalityAdjustment = riskAdjustments.find(...);
    if (highCriticalityAdjustment) {
      gate.triggered = true;
      gate.reason = 'High criticality asset involved';
      gate.approval_level = highCriticalityAdjustment.add_score >= 30 ? 'level_2' : 'level_1';
    }
  }
  \<close>
\<close>

definition checkAssetCriticalityGate :: "(string \<Rightarrow> int \<Rightarrow> bool) \<Rightarrow> json \<Rightarrow> thrown + gate" where
  "checkAssetCriticalityGate N playbook =
     (let g = \<lparr>gate_name = ''asset_criticality'', gate_triggered = False,
                gate_level = level_1, gate_reason = []\<rparr>
      in bindE (get_prop (Some playbook) ''use_case'') (\<lambda>use_case.
         bindE (get_prop use_case ''asset_context'') (\<lambda>assetContext.
           if truthy (get_prop_opt assetContext ''asset_criticality_aware'')
           then bindE (get_prop use_case ''risk_model'') (\<lambda>risk_model.
                bindE (get_prop risk_model ''risk_adjustments'') (\<lambda>risk_adjustments.
                bindE (array_of (Some (js_or risk_adjustments (JArr [])))) (\<lambda>riskAdjustments.
                bindE (find_adjustment riskAdjustments) (\<lambda>highCriticalityAdjustment.
                  if truthy highCriticalityAdjustment
                  then bindE (get_prop highCriticalityAdjustment ''add_score'') (\<lambda>add_score.
                         Inr (g\<lparr>gate_triggered := True,
                                 gate_reason := ''High criticality asset involved'',
                                 gate_level := (if js_ge N add_score 30
                                                then level_2 else level_1)\<rparr>))
                  else Inr g))))
           else Inr g)))"

definition getApprovalLevelPriority :: "approval_level \<Rightarrow> nat" where
  "getApprovalLevelPriority level = (case level of level_1 \<Rightarrow> 1 | level_2 \<Rightarrow> 2 | level_3 \<Rightarrow> 3)"

definition generateApprovalReason :: "gate list \<Rightarrow> string" where
  "generateApprovalReason gates = ''Approval required: '' @ join ''; '' (map gate_reason gates)"

text \<open>\<open>expiration.setHours(expiration.getHours() + maxApprovalTime)\<close>, an hour being
  3600000 milliseconds.\<close>

definition calculateExpirationTime :: "approval_config \<Rightarrow> gate_env \<Rightarrow> int" where
  "calculateExpirationTime cfg e = now e + max_approval_time (escalation cfg) * 3600000"

text \<open>\<open>this.approvalConfig.approvers[level] || []\<close>\<close>

definition getApproversForLevel :: "approval_config \<Rightarrow> approval_level option \<Rightarrow> string list" where
  "getApproversForLevel cfg level =
     (case level of
        None \<Rightarrow> []
      | Some l \<Rightarrow> (case approvers cfg l of None \<Rightarrow> [] | Some roster \<Rightarrow> roster))"

definition shouldSendNotifications :: "approval_config \<Rightarrow> bool" where
  "shouldSendNotifications cfg =
     (email_enabled (notifications cfg) \<or> slack_enabled (notifications cfg))"

text \<open>
  \<^verbatim>\<open>
  createPlaybookSummary(playbook) {
    return {
      name: playbook.playbook_name,
      category: playbook.use_case.use_case_metadata.category,
      severity: playbook.use_case.risk_model.base_severity,
      risk_score: playbook.use_case.risk_model.risk_score,
      techniques: playbook.use_case.mitre_techniques,
      actions: playbook.actions?.automated_actions || []
    };
  }
  \<close>
\<close>

definition createPlaybookSummary :: "json \<Rightarrow> thrown + playbook_summary" where
  "createPlaybookSummary playbook =
     bindE (get_prop (Some playbook) ''playbook_name'') (\<lambda>playbook_name.
     bindE (get_prop (Some playbook) ''use_case'') (\<lambda>use_case.
     bindE (get_prop use_case ''use_case_metadata'') (\<lambda>use_case_metadata.
     bindE (get_prop use_case_metadata ''category'') (\<lambda>category.
     bindE (get_prop use_case ''risk_model'') (\<lambda>risk_model.
     bindE (get_prop risk_model ''base_severity'') (\<lambda>base_severity.
     bindE (get_prop risk_model ''risk_score'') (\<lambda>risk_score.
     bindE (get_prop use_case ''mitre_techniques'') (\<lambda>mitre_techniques.
     bindE (get_prop (Some playbook) ''actions'') (\<lambda>playbook_actions.
       Inr \<lparr>summary_name = playbook_name,
            summary_category = category,
            summary_severity = base_severity,
            summary_risk_score = risk_score,
            summary_techniques = mitre_techniques,
            summary_actions = js_or (get_prop_opt playbook_actions ''automated_actions'')
                                (JArr [])\<rparr>)))))))))"

text \<open>\<open>createApprovalRequest\<close>: the object literal, its fields evaluated in the order written
  (a field that throws leaves the store as it was), then \<open>approvalStore.set\<close>, and
  \<open>sendApprovalNotifications\<close> setting \<open>notifications_sent\<close> on the stored request.
  \<open>requested_by\<close> is \<open>executionContext.user || 'system'\<close>.\<close>

definition createApprovalRequest ::
  "approval_config \<Rightarrow> gate_env \<Rightarrow> approval_decision \<Rightarrow> json \<Rightarrow> json
     \<Rightarrow> gate_state \<Rightarrow> thrown + gate_state" where
  "createApprovalRequest cfg e approvalDecision playbook executionContext st =
     bindE (get_prop (Some playbook) ''playbook_id'') (\<lambda>playbook_id.
     bindE (get_prop (Some playbook) ''playbook_name'') (\<lambda>playbook_name.
     bindE (get_prop (Some executionContext) ''user'') (\<lambda>context_user.
     bindE (createPlaybookSummary playbook) (\<lambda>summary.
       let approvalRequest =
            \<lparr>approval_id = d_approval_id approvalDecision,
             req_playbook_id = playbook_id,
             req_playbook_name = playbook_name,
             approval_level = d_approval_level approvalDecision,
             gates_triggered = d_gates_triggered approvalDecision,
             req_reason = d_reason approvalDecision,
             status = pending,
             req_created_at = now e,
             expires_at = d_expires_at approvalDecision,
             requested_by = js_or context_user (JStr ''system''),
             req_context = executionContext,
             req_summary = summary,
             req_approvers = getApproversForLevel cfg (d_approval_level approvalDecision),
             notifications_sent = shouldSendNotifications cfg,
             escalated_at = None, approved_by = None, approved_at = None,
             approval_comments = None, rejected_by = None, rejected_at = None,
             rejection_reason = None\<rparr>
       in Inr (st\<lparr>approvalStore := AList.update (d_approval_id approvalDecision) approvalRequest
                                      (approvalStore st)\<rparr>)))))"

text \<open>The array of the seven gates, checked in the order written; a check that throws ends
  the evaluation.\<close>

definition check_gates ::
  "(string \<Rightarrow> int \<Rightarrow> bool) \<Rightarrow> approval_config \<Rightarrow> gate_env \<Rightarrow> json \<Rightarrow> thrown + gate list" where
  "check_gates N cfg e playbook =
     bindE (checkPrivilegedAccountGate playbook) (\<lambda>privileged.
     bindE (checkCriticalAssetGate playbook) (\<lambda>critical.
     bindE (checkRiskScoreGate N cfg playbook) (\<lambda>risk.
     bindE (checkTechniqueGate cfg playbook) (\<lambda>technique.
     bindE (checkActionGate cfg playbook) (\<lambda>act.
     bindE (checkAssetCriticalityGate N playbook) (\<lambda>criticality.
       Inr [privileged, critical, risk, technique, act, checkBusinessHoursGate cfg e,
            criticality]))))))"

text \<open>One turn of the loop over the gates.\<close>

definition gate_step :: "approval_decision \<Rightarrow> gate \<Rightarrow> approval_decision" where
  "gate_step approvalDecision g =
     (if gate_triggered g
      then (let d = approvalDecision\<lparr>d_requires_approval := True,
                                      d_gates_triggered := d_gates_triggered approvalDecision @ [g]\<rparr>
            in case d_approval_level d of
                 None \<Rightarrow> d\<lparr>d_approval_level := Some (gate_level g)\<rparr>
               | Some l \<Rightarrow>
                   if getApprovalLevelPriority (gate_level g) > getApprovalLevelPriority l
                   then d\<lparr>d_approval_level := Some (gate_level g)\<rparr>
                   else d)
      else approvalDecision)"

text \<open>
  \<open>evaluateApprovalGates(playbook, executionContext = {})\<close>: an execution context that is
  \<open>undefined\<close> (\<open>None\<close>) is the empty object. The body is inside
  \<^verbatim>\<open>try { ... } catch (error) { throw new Error(`Approval gate evaluation failed: ${error.message}`) }\<close>
  and everything that can throw comes before \<open>approvalStore.set\<close>, so a call that throws
  leaves the store as it was.
\<close>

definition evaluateApprovalGates ::
  "(string \<Rightarrow> int \<Rightarrow> bool) \<Rightarrow> approval_config \<Rightarrow> gate_env \<Rightarrow> json \<Rightarrow> json option \<Rightarrow> gate_state
     \<Rightarrow> (error + approval_decision) \<times> gate_state" where
  "evaluateApprovalGates N cfg e playbook executionContext st =
     (let ctx = (case executionContext of None \<Rightarrow> JObj [] | Some c \<Rightarrow> c);
          approvalDecision =
            \<lparr>d_requires_approval = False, d_approval_level = None, d_gates_triggered = [],
             d_auto_approve = False, d_reason = [], d_approval_id = None, d_expires_at = None\<rparr>
      in case check_gates N cfg e playbook of
           Inl t \<Rightarrow> (Inl (Error ''Approval gate evaluation failed'' t), st)
         | Inr gates \<Rightarrow>
             let d = foldl gate_step approvalDecision gates
             in if d_requires_approval d
                then (let d' = d\<lparr>d_reason := generateApprovalReason (d_gates_triggered d),
                                 d_approval_id := Some (uuid e),
                                 d_expires_at := Some (calculateExpirationTime cfg e)\<rparr>
                      in case createApprovalRequest cfg e d' playbook ctx st of
                           Inl t \<Rightarrow> (Inl (Error ''Approval gate evaluation failed'' t), st)
                         | Inr st' \<Rightarrow> (Inr d', st'))
                else (Inr (d\<lparr>d_reason := ''No approval gates triggered'',
                             d_auto_approve := True\<rparr>), st))"

section \<open>ApprovalGateEngine: the requests\<close>

definition isValidApprover :: "approval_config \<Rightarrow> string \<Rightarrow> approval_level option \<Rightarrow> bool" where
  "isValidApprover cfg approver requiredLevel = (approver \<in> set (getApproversForLevel cfg requiredLevel))"

definition status_name :: "status \<Rightarrow> string" where
  "status_name st = (case st of pending \<Rightarrow> ''pending'' | approved \<Rightarrow> ''approved''
                     | rejected \<Rightarrow> ''rejected'' | expired \<Rightarrow> ''expired'')"

definition approveRequest ::
  "approval_config \<Rightarrow> gate_env \<Rightarrow> string \<Rightarrow> string \<Rightarrow> string \<Rightarrow> gate_state
     \<Rightarrow> (thrown + approval_request) \<times> gate_state" where
  "approveRequest cfg e approvalId approver comments st =
     (case map_of (approvalStore st) (Some approvalId) of
        None \<Rightarrow> (Inl (Message ''Approval request not found''), st)
      | Some request \<Rightarrow>
          if status request \<noteq> pending
          then (Inl (Message (''Approval request is '' @ status_name (status request)
                               @ '', cannot approve'')), st)
          else if \<not> isValidApprover cfg approver (approval_level request)
          then (Inl (Message ''User is not authorized to approve this request''), st)
          else
            let request' = request\<lparr>status := approved, approved_by := Some approver,
                                   approved_at := Some (now e),
                                   approval_comments := Some comments\<rparr>
            in (Inr request',
                st\<lparr>approvalStore := AList.update (Some approvalId) request' (approvalStore st),
                   approvalHistory := approvalHistory st @
                     [\<lparr>h_action = ''approve'', h_approval_id = approvalId, h_approver = approver,
                       h_timestamp = now e, h_text = Some comments\<rparr>]\<rparr>))"

text \<open>\<open>rejectRequest(approvalId, approver, reason)\<close>; \<open>reason\<close> is \<open>None\<close> when the argument is
  absent.\<close>

definition rejectRequest ::
  "approval_config \<Rightarrow> gate_env \<Rightarrow> string \<Rightarrow> string \<Rightarrow> string option \<Rightarrow> gate_state
     \<Rightarrow> (thrown + approval_request) \<times> gate_state" where
  "rejectRequest cfg e approvalId approver reason st =
     (case map_of (approvalStore st) (Some approvalId) of
        None \<Rightarrow> (Inl (Message ''Approval request not found''), st)
      | Some request \<Rightarrow>
          if status request \<noteq> pending
          then (Inl (Message (''Approval request is '' @ status_name (status request)
                               @ '', cannot reject'')), st)
          else if \<not> isValidApprover cfg approver (approval_level request)
          then (Inl (Message ''User is not authorized to reject this request''), st)
          else
            let request' = request\<lparr>status := rejected, rejected_by := Some approver,
                                   rejected_at := Some (now e),
                                   rejection_reason := reason\<rparr>
            in (Inr request',
                st\<lparr>approvalStore := AList.update (Some approvalId) request' (approvalStore st),
                   approvalHistory := approvalHistory st @
                     [\<lparr>h_action = ''reject'', h_approval_id = approvalId, h_approver = approver,
                       h_timestamp = now e, h_text = reason\<rparr>]\<rparr>))"

text \<open>The route of the server in front of \<open>rejectRequest\<close>:
  \<^verbatim>\<open>
  const { approver, reason } = req.body;
  if (!approver || !reason) {
    return res.status(400).json({ error: 'Approver and reason are required' });
  }
  const request = await approvalGateEngine.rejectRequest(approvalId, approver, reason);
  res.json({ success: true, request });
  \<close>
  and \<open>res.status(500)\<close> with the message of whatever is thrown.\<close>

datatype response = Status_400 string | Status_500 thrown | Success approval_request

definition post_reject ::
  "approval_config \<Rightarrow> gate_env \<Rightarrow> string \<Rightarrow> string option \<Rightarrow> string option \<Rightarrow> gate_state
     \<Rightarrow> response \<times> gate_state" where
  "post_reject cfg e approvalId approver reason st =
     (case (approver, reason) of
        (Some a, Some r) \<Rightarrow>
          if a = [] \<or> r = [] then (Status_400 ''Approver and reason are required'', st)
          else (case rejectRequest cfg e approvalId a (Some r) st of
                  (Inl t, st') \<Rightarrow> (Status_500 t, st')
                | (Inr request, st') \<Rightarrow> (Success request, st'))
      | _ \<Rightarrow> (Status_400 ''Approver and reason are required'', st))"






section \<open>Predicates and examples for the statements\<close>

definition is_dec :: "char \<Rightarrow> bool" where
  "is_dec c = (c \<in> set ''0123456789'')"

text \<open>The version number \<open>1.0.n\<close>.\<close>

definition numbered :: "nat \<Rightarrow> string" where
  "numbered n = ''1.0.'' @ show_nat n"

text \<open>The patch component of a version number, read as \<open>getNextVersionNumber\<close> reads it: the
  third segment between dots, through \<open>parseInt\<close>.\<close>

definition patch_component :: "string option \<Rightarrow> int option" where
  "patch_component number =
     (case number of
        None \<Rightarrow> None
      | Some n \<Rightarrow> (case split_on (CHR ''.'') n of a # b # c # rest \<Rightarrow> parseInt c | _ \<Rightarrow> None))"

text \<open>A stored version is sound when its number is some \<open>1.0.n\<close> and its checksum is
  \<open>calculateChecksum\<close> of its snapshot.\<close>

definition version_ok :: "(string \<Rightarrow> string) \<Rightarrow> version \<Rightarrow> bool" where
  "version_ok H v =
     ((\<exists>n. version_number v = Some (numbered n)) \<and>
      (\<exists>snap c. playbook_snapshot v = Some snap \<and> checksum v = Some c
                \<and> calculateChecksum H snap = Inr c))"

text \<open>The canonical serialization as the specification words it, "a canonical (key-sorted)
  serialization" of the snapshot: the whole document, every object with all its fields,
  listed by sorted key.\<close>

fun canonicalize :: "json \<Rightarrow> string" where
  "canonicalize JNull = ''null''"
| "canonicalize (JBool b) = (if b then ''true'' else ''false'')"
| "canonicalize (JNum n) = show_int n"
| "canonicalize (JStr s) = quote s"
| "canonicalize (JArr xs) = ''['' @ join '','' (map canonicalize xs) @ '']''"
| "canonicalize (JObj kvs) =
     ''{'' @ join '',''
       (members (sort (own_keys kvs)) (map (\<lambda>(k, v). (k, canonicalize v)) kvs)) @ ''}''"

text \<open>The invariant of the engine: every version in memory and every version in a file is
  sound, the versions in files have non-empty ids, and every branch pointer is the non-empty
  id of a version in memory.\<close>

definition vc_inv :: "(string \<Rightarrow> string) \<Rightarrow> vc_state \<Rightarrow> bool" where
  "vc_inv H s =
     ((\<forall>vid v. versions s vid = Some v \<longrightarrow> version_ok H v) \<and>
      (\<forall>k vid. branches s k = Some vid \<longrightarrow> vid \<noteq> [] \<and> versions s vid \<noteq> None) \<and>
      (\<forall>file v. storage s file = Some v \<longrightarrow> version_ok H v \<and> version_id v \<noteq> []))"



text \<open>Example inputs: a playbook, the same playbook without \<open>playbook_id\<close>, and what three
  calls read from outside (the third with a file write that fails).\<close>

definition example_playbook :: json where
  "example_playbook =
     JObj [(''playbook_id'', JStr ''pb1''),
           (''use_case'', JObj [(''use_case_metadata'', JObj [(''category'', JStr ''auth'')]),
                               (''risk_model'', JObj [(''risk_score'', JNum 85)])])]"

definition anonymous_playbook :: json where
  "anonymous_playbook =
     JObj [(''use_case'', JObj [(''use_case_metadata'', JObj [(''category'', JStr ''auth'')]),
                               (''risk_model'', JObj [(''risk_score'', JNum 85)])])]"

definition env_1 :: env where
  "env_1 = \<lparr>uuid_version = ''a-1'', uuid_audit = ''b-1'', clock = 1000, fs_fails = False\<rparr>"

definition env_2 :: env where
  "env_2 = \<lparr>uuid_version = ''a-2'', uuid_audit = ''b-2'', clock = 2000, fs_fails = False\<rparr>"

definition env_3 :: env where
  "env_3 = \<lparr>uuid_version = ''a-3'', uuid_audit = ''b-3'', clock = 3000, fs_fails = False\<rparr>"

definition env_4 :: env where
  "env_4 = \<lparr>uuid_version = ''a-4'', uuid_audit = ''b-4'', clock = 4000, fs_fails = False\<rparr>"

definition env_failing :: env where
  "env_failing = \<lparr>uuid_version = ''a-9'', uuid_audit = ''b-9'', clock = 9000, fs_fails = True\<rparr>"

text \<open>Example states: a first version on \<open>main\<close>, a branch \<open>feature\<close> from it, a second
  version on \<open>main\<close>, and then \<open>feature\<close> merged into \<open>main\<close>.\<close>

definition state_1 :: vc_state where
  "state_1 = snd (createVersion id env_1 example_playbook ''first'' ''system'' ''main'' init_state)"

definition state_2 :: vc_state where
  "state_2 = snd (createBranch env_2 ''pb1'' ''feature'' ''v_a_1'' ''system'' state_1)"

definition state_3 :: vc_state where
  "state_3 = snd (createVersion id env_3 example_playbook ''second'' ''system'' ''main'' state_2)"

definition state_4 :: vc_state where
  "state_4 = snd (mergeBranch env_4 ''pb1'' ''feature'' ''main'' ''system'' state_3)"

text \<open>Example inputs of the approval engine: the default configuration with the restricted
  techniques \<open>["T1098"]\<close>; a playbook with risk score 85, technique \<open>T1110\<close> and user name
  \<open>svc_admin\<close>; a document with these three fields and no other; a runtime in which no
  string is read as a number that is at least another; an evaluation at ten o'clock, and a
  sweep five hours later.\<close>

definition example_config :: approval_config where
  "example_config =
     getDefaultApprovalConfig
       \<lparr>required_for := (required_for getDefaultApprovalConfig)\<lparr>certain_techniques := [''T1098'']\<rparr>\<rparr>"

definition example_gate_playbook :: json where
  "example_gate_playbook =
     JObj [(''playbook_id'', JStr ''pb1''),
           (''playbook_name'', JStr ''Brute force''),
           (''use_case'',
              JObj [(''use_case_metadata'', JObj [(''category'', JStr ''auth'')]),
                    (''normalized_fields'', JObj [(''username'', JStr ''svc_admin'')]),
                    (''risk_model'', JObj [(''base_severity'', JStr ''High''),
                                          (''risk_score'', JNum 85)]),
                    (''mitre_techniques'', JArr [JStr ''T1110''])])]"

definition three_field_playbook :: json where
  "three_field_playbook =
     JObj [(''use_case'',
              JObj [(''normalized_fields'', JObj [(''username'', JStr ''svc_admin'')]),
                    (''risk_model'', JObj [(''risk_score'', JNum 85)]),
                    (''mitre_techniques'', JArr [JStr ''T1110''])])]"

definition no_string_number :: "string \<Rightarrow> int \<Rightarrow> bool" where
  "no_string_number s n = False"

definition gate_env_1 :: gate_env where
  "gate_env_1 = \<lparr>uuid = ''r-1'', now = 36000000, current_hour = 10\<rparr>"

definition gate_env_2 :: gate_env where
  "gate_env_2 = \<lparr>uuid = ''r-2'', now = 54000000, current_hour = 15\<rparr>"

definition empty_gate_state :: gate_state where
  "empty_gate_state = \<lparr>approvalStore = [], approvalHistory = []\<rparr>"

definition example_gate_state :: gate_state where
  "example_gate_state =
     snd (evaluateApprovalGates no_string_number example_config gate_env_1 example_gate_playbook
            None empty_gate_state)"

section \<open>The checksum sees only the fields named at the top level\<close>

lemma map_of_map_snd: "map_of (map (\<lambda>(k, v). (k, f v)) kvs) k = map_option f (map_of kvs k)"
  by (induction kvs) auto

lemma map_of_map_filter_Pair:
  "map_of (List.map_filter (\<lambda>k. map_option (Pair k) (m k)) ks) k = (if k \<in> set ks then m k else None)"
  by (induction ks) (auto simp: List.map_filter_simps split: option.splits)

lemma map_filter_cong_set:
  "(\<And>k. k \<in> set ks \<Longrightarrow> f k = g k) \<Longrightarrow> List.map_filter f ks = List.map_filter g ks"
  by (induction ks) (auto simp: List.map_filter_simps split: option.splits)

lemma stringify_prune: "stringify (Some ks) (prune ks j) = stringify (Some ks) j"
proof (induction j)
  case (JArr xs)
  then show ?case by (simp add: comp_def cong: map_cong)
next
  case (JObj kvs)
  have "members ks (map (\<lambda>(k, v). (k, stringify (Some ks) v))
          (List.map_filter (\<lambda>k. map_option (Pair k) (map_of (map (\<lambda>(k, v). (k, prune ks v)) kvs) k)) ks))
      = members ks (map (\<lambda>(k, v). (k, stringify (Some ks) v)) kvs)"
    unfolding members_def
  proof (rule map_filter_cong_set)
    fix k assume k: "k \<in> set ks"
    have "map_of kvs k = Some v \<Longrightarrow> stringify (Some ks) (prune ks v) = stringify (Some ks) v" for v
      using JObj.IH[of "(k, v)" v] by (auto dest: map_of_SomeD)
    then show "map_option (\<lambda>s. quote k @ '':'' @ s) (map_of (map (\<lambda>(k, v). (k, stringify (Some ks) v))
          (List.map_filter (\<lambda>k. map_option (Pair k) (map_of (map (\<lambda>(k, v). (k, prune ks v)) kvs) k)) ks)) k)
       = map_option (\<lambda>s. quote k @ '':'' @ s) (map_of (map (\<lambda>(k, v). (k, stringify (Some ks) v)) kvs) k)"
      using k by (cases "map_of kvs k") (simp_all add: map_of_map_snd map_of_map_filter_Pair)
  qed
  then show ?case by simp
qed simp_all

lemma property_list_distinct: "distinct ks \<Longrightarrow> rev (remdups (rev ks)) = ks"
  by (simp add: distinct_remdups_id)

lemma calculateChecksum_object:
  "calculateChecksum H (JObj kvs) = Inr (H (stringify (Some (sort (own_keys kvs))) (JObj kvs)))"
  by (simp add: calculateChecksum_def JSON_stringify_def own_keys_def property_list_distinct)

lemma calculateChecksum_pruned:
  "calculateChecksum H (JObj kvs)
     = Inr (H (stringify (Some (sort (own_keys kvs))) (prune (sort (own_keys kvs)) (JObj kvs))))"
  by (simp only: calculateChecksum_object stringify_prune)

lemma sort_own_keys_eq:
  "set (own_keys ps) = set (own_keys qs) \<Longrightarrow> sort (own_keys ps) = sort (own_keys qs)"
  by (rule sorted_distinct_set_unique) (simp_all add: own_keys_def)

text \<open>
  C10. \<open>calculateChecksum\<close> serializes the playbook with its sorted top-level key names as
  the replacer of \<open>JSON.stringify\<close>, and the replacer filters the objects at every depth to
  those names. So two playbooks with the same top-level keys that agree on every field whose
  key is one of those names (\<open>prune\<close> leaves the same document) have the same checksum,
  whatever their other nested fields hold.
\<close>

theorem calculateChecksum_blind_to_filtered_fields:
  assumes keys: "set (own_keys ps) = set (own_keys qs)"
      and agree: "prune (sort (own_keys ps)) (JObj ps) = prune (sort (own_keys qs)) (JObj qs)"
  shows "calculateChecksum H (JObj ps) = calculateChecksum H (JObj qs)"
proof -
  let ?K = "sort (own_keys ps)"
  have K: "sort (own_keys qs) = ?K"
    by (rule sort_own_keys_eq [OF keys [symmetric]])
  have same: "prune ?K (JObj ps) = prune ?K (JObj qs)"
    using agree by (simp only: K)
  have "stringify (Some ?K) (JObj ps) = stringify (Some ?K) (prune ?K (JObj ps))"
    by (simp only: stringify_prune)
  also have "\<dots> = stringify (Some ?K) (prune ?K (JObj qs))"
    by (simp only: same)
  also have "\<dots> = stringify (Some ?K) (JObj qs)"
    by (simp only: stringify_prune)
  finally show ?thesis
    by (simp only: calculateChecksum_object K)
qed

text \<open>The two playbooks differ in \<open>use_case.risk_model.risk_score\<close> (85 and 10); neither
  \<open>risk_model\<close> nor \<open>risk_score\<close> is a top-level key.\<close>

theorem calculateChecksum_blind_to_filtered_fields_witness:
  "JObj [(''playbook_id'', JStr ''p''), (''use_case'', JObj [(''risk_model'', JObj [(''risk_score'', JNum 85)])])]
     \<noteq> JObj [(''playbook_id'', JStr ''p''), (''use_case'', JObj [(''risk_model'', JObj [(''risk_score'', JNum 10)])])]
   \<and> set (own_keys [(''playbook_id'', JStr ''p''), (''use_case'', JObj [(''risk_model'', JObj [(''risk_score'', JNum 85)])])])
     = set (own_keys [(''playbook_id'', JStr ''p''), (''use_case'', JObj [(''risk_model'', JObj [(''risk_score'', JNum 10)])])])
   \<and> (\<forall>H. calculateChecksum H (JObj [(''playbook_id'', JStr ''p''), (''use_case'', JObj [(''risk_model'', JObj [(''risk_score'', JNum 85)])])])
          = calculateChecksum H (JObj [(''playbook_id'', JStr ''p''), (''use_case'', JObj [(''risk_model'', JObj [(''risk_score'', JNum 10)])])]))"
proof -
  let ?ps = "[(''playbook_id'', JStr ''p''), (''use_case'', JObj [(''risk_model'', JObj [(''risk_score'', JNum 85)])])]"
  let ?qs = "[(''playbook_id'', JStr ''p''), (''use_case'', JObj [(''risk_model'', JObj [(''risk_score'', JNum 10)])])]"
  have keys: "set (own_keys ?ps) = set (own_keys ?qs)"
    by (simp add: own_keys_def)
  have agree: "prune (sort (own_keys ?ps)) (JObj ?ps) = prune (sort (own_keys ?qs)) (JObj ?qs)"
    by (simp add: own_keys_def List.map_filter_simps)
  show ?thesis
    using calculateChecksum_blind_to_filtered_fields [OF keys agree] keys by simp
qed

section \<open>Version numbers\<close>

lemma digit_char_dec: "d < 10 \<Longrightarrow> is_dec (digit_char d)"
proof -
  assume "d < 10"
  then have "d \<in> {0,1,2,3,4,5,6,7,8,9}" by auto
  then show ?thesis by (auto simp: digit_char_def is_dec_def)
qed

lemma digit_val_digit_char: "d < 10 \<Longrightarrow> digit_val (digit_char d) = Some d"
proof -
  assume "d < 10"
  then have "d \<in> {0,1,2,3,4,5,6,7,8,9}" by auto
  then show ?thesis by (auto simp: digit_char_def digit_val_def)
qed

lemma show_nat_dec: "\<forall>c \<in> set (show_nat n). is_dec c"
proof (induction n rule: show_nat.induct)
  case (1 n)
  show ?case
  proof (cases "n < 10")
    case True
    then show ?thesis by (subst show_nat.simps) (simp add: digit_char_dec)
  next
    case False
    with 1 show ?thesis by (subst show_nat.simps) (simp add: digit_char_dec)
  qed
qed

lemma show_nat_nonempty: "show_nat n \<noteq> []"
  by (subst show_nat.simps) simp

lemma show_nat_0: "show_nat 0 = ''0''"
  by (subst show_nat.simps) (simp add: digit_char_def)

lemma is_dec_digit_val: "is_dec c \<Longrightarrow> \<exists>d < 10. digit_val c = Some d"
  by (auto simp: is_dec_def digit_val_def)

lemma parse_digits_snoc:
  "\<forall>c \<in> set xs. is_dec c \<Longrightarrow> d < 10 \<Longrightarrow>
   parse_digits 10 (xs @ [digit_char d]) acc =
     (case parse_digits 10 xs acc of None \<Rightarrow> Some d | Some a \<Rightarrow> Some (a * 10 + d))"
proof (induction xs arbitrary: acc)
  case Nil
  then show ?case by (simp add: digit_val_digit_char split: option.splits)
next
  case (Cons x xs)
  from Cons.prems obtain dx where dx: "dx < 10" "digit_val x = Some dx"
    using is_dec_digit_val by auto
  show ?case using Cons dx by simp
qed

lemma parse_digits_show_nat: "parse_digits 10 (show_nat n) None = Some n"
proof (induction n rule: show_nat.induct)
  case (1 n)
  show ?case
  proof (cases "n < 10")
    case True
    then show ?thesis by (subst show_nat.simps) (simp add: digit_val_digit_char)
  next
    case False
    then have "parse_digits 10 (show_nat (n div 10)) None = Some (n div 10)"
      using 1 by simp
    with False show ?thesis
      by (subst show_nat.simps) (simp add: parse_digits_snoc show_nat_dec)
  qed
qed

lemma is_dec_facts:
  "is_dec c \<Longrightarrow> \<not> is_space c \<and> c \<noteq> CHR ''-'' \<and> c \<noteq> CHR ''+'' \<and> c \<noteq> CHR ''x'' \<and> c \<noteq> CHR ''X'' \<and> c \<noteq> CHR ''.''"
  by (auto simp: is_dec_def is_space_def)

lemma parseInt_dec:
  assumes "\<forall>c \<in> set s. is_dec c" "s \<noteq> []"
  shows "parseInt s = map_option int (parse_digits 10 s None)"
proof -
  obtain c cs where s: "s = c # cs" using assms(2) by (cases s) auto
  have c: "is_dec c" using assms(1) s by simp
  have nohex: "(case s of a # b # cs \<Rightarrow> a = CHR ''0'' \<and> (b = CHR ''x'' \<or> b = CHR ''X'') | _ \<Rightarrow> False) = False"
  proof (cases cs)
    case Nil
    then show ?thesis using s by simp
  next
    case (Cons b bs)
    then have "is_dec b" using assms(1) s by simp
    then show ?thesis using s Cons is_dec_facts by auto
  qed
  have dw: "dropWhile is_space s = s" using s c is_dec_facts by simp
  show ?thesis
    unfolding parseInt_def Let_def dw
    using s c is_dec_facts nohex by (auto simp: option.map_comp comp_def)
qed

lemma parseInt_show_nat: "parseInt (show_nat n) = Some (int n)"
  by (simp add: parseInt_dec show_nat_dec show_nat_nonempty parse_digits_show_nat)

lemma split_on_no_sep: "c \<notin> set s \<Longrightarrow> split_on c s = [s]"
  by (induction s) auto

lemma show_nat_no_dot: "CHR ''.'' \<notin> set (show_nat n)"
  using show_nat_dec[of n] is_dec_facts by blast

lemma split_numbered: "split_on (CHR ''.'') (numbered n) = [''1'', ''0'', show_nat n]"
  by (simp add: numbered_def split_on_no_sep show_nat_no_dot)

lemma show_int_Suc: "show_int (int n + 1) = show_nat (Suc n)"
  by (simp add: show_int_def nat_add_distrib)

lemma numbered_0: "''1.0.0'' = numbered 0"
  by (simp add: numbered_def show_nat_0)

lemma increment_patch_numbered: "increment_patch (numbered n) = numbered (Suc n)"
  unfolding increment_patch_def split_numbered Let_def
  by (simp add: parseInt_show_nat show_int_Suc numbered_def)

lemma patch_component_numbered: "patch_component (Some (numbered n)) = Some (int n)"
  by (simp add: patch_component_def split_numbered parseInt_show_nat)

section \<open>The invariant of the version store\<close>

lemma bindE_Inr: "bindE m f = Inr y \<longleftrightarrow> (\<exists>x. m = Inr x \<and> f x = Inr y)"
  by (cases m) (simp_all add: bindE_def)

lemma generateVersionId_nonempty: "generateVersionId u \<noteq> []"
  by (simp add: generateVersionId_def)

lemma vc_inv_version: "vc_inv H s \<Longrightarrow> versions s vid = Some v \<Longrightarrow> version_ok H v"
  unfolding vc_inv_def by blast

lemma vc_inv_head: "vc_inv H s \<Longrightarrow> branches s k = Some vid \<Longrightarrow> \<exists>v. versions s vid = Some v"
  unfolding vc_inv_def by blast

lemma vc_inv_head_nonempty: "vc_inv H s \<Longrightarrow> branches s k = Some vid \<Longrightarrow> vid \<noteq> []"
  unfolding vc_inv_def by blast

lemma version_ok_number: "version_ok H v \<Longrightarrow> \<exists>n. version_number v = Some (numbered n)"
  unfolding version_ok_def by blast

lemma vc_inv_init: "vc_inv H init_state"
  by (simp add: vc_inv_def init_state_def)

lemma vc_inv_file:
  "vc_inv H s \<Longrightarrow> storage s file = Some v \<Longrightarrow> version_ok H v \<and> version_id v \<noteq> []"
  unfolding vc_inv_def by blast

text \<open>Every operation stores one sound version, moves one pointer to it, perhaps removes
  another pointer, and perhaps writes the version to a file.\<close>

lemma vc_inv_upd:
  assumes "vc_inv H s" "version_ok H v" "version_id v \<noteq> []"
    "versions s' = (versions s)(version_id v \<mapsto> v)"
    "branches s' = (branches s)(k \<mapsto> version_id v)"
    "storage s' = (if failed then storage s else (storage s)(file \<mapsto> v))"
  shows "vc_inv H s'"
  using assms unfolding vc_inv_def by (auto split: if_splits)

lemma vc_inv_upd_del:
  assumes "vc_inv H s" "version_ok H v" "version_id v \<noteq> []"
    "versions s' = (versions s)(version_id v \<mapsto> v)"
    "branches s' = ((branches s)(k \<mapsto> version_id v))(k' := None)"
    "storage s' = (if failed then storage s else (storage s)(file \<mapsto> v))"
  shows "vc_inv H s'"
  using assms unfolding vc_inv_def by (auto split: if_splits)

text \<open>In a state of the invariant the next version number is always computed, and is the
  head's number with its last segment one higher.\<close>

lemma getNextVersionNumber_numbered:
  assumes "vc_inv H s"
  shows "\<exists>n. getNextVersionNumber s pid b = Inr (numbered n)"
proof (cases "branches s (branch_key pid b)")
  case None
  then show ?thesis unfolding getNextVersionNumber_def numbered_0 by auto
next
  case (Some cur)
  show ?thesis
  proof (cases "cur = []")
    case True
    then show ?thesis unfolding getNextVersionNumber_def numbered_0 using Some by auto
  next
    case False
    from vc_inv_head[OF assms Some] obtain cv where cv: "versions s cur = Some cv" by blast
    from version_ok_number[OF vc_inv_version[OF assms cv]]
    obtain n where n: "version_number cv = Some (numbered n)" by blast
    have "getNextVersionNumber s pid b = Inr (numbered (Suc n))"
      unfolding getNextVersionNumber_def using Some False cv n
      by (simp add: increment_patch_numbered)
    then show ?thesis by blast
  qed
qed

lemma new_version_fields:
  assumes "new_version H e pb d a b s = Inr v"
  shows "\<exists>c pid num. calculateChecksum H pb = Inr c
           \<and> get_prop (Some pb) ''playbook_id'' = Inr pid
           \<and> getNextVersionNumber s pid b = Inr num
           \<and> version_number v = Some num \<and> checksum v = Some c
           \<and> playbook_snapshot v = Some pb \<and> playbook_id v = pid
           \<and> parent_version v = getParentVersion s pid b
           \<and> version_id v = generateVersionId (uuid_version e) \<and> branch v = b"
  using assms unfolding new_version_def by (auto simp: bindE_Inr deep_clone_def)

lemma new_version_ok:
  assumes "vc_inv H s" "new_version H e pb d a b s = Inr v"
  shows "version_ok H v \<and> version_id v \<noteq> []"
proof -
  from new_version_fields[OF assms(2)] obtain c pid num where
    c: "calculateChecksum H pb = Inr c" and
    num: "getNextVersionNumber s pid b = Inr num" and
    v: "version_number v = Some num" "checksum v = Some c" "playbook_snapshot v = Some pb"
       "version_id v = generateVersionId (uuid_version e)"
    by blast
  from getNextVersionNumber_numbered[OF assms(1), of pid b] num
  obtain n where "num = numbered n" by auto
  with c v show ?thesis by (auto simp: version_ok_def generateVersionId_nonempty)
qed

text \<open>What each operation does to the two maps.\<close>

lemma createVersion_cases:
  "(\<exists>t. new_version H e pb d a b s = Inl t \<and>
        createVersion H e pb d a b s = (Inl (Error ''Version creation failed'' t), s))
   \<or> (\<exists>v. new_version H e pb d a b s = Inr v
        \<and> versions (snd (createVersion H e pb d a b s)) = (versions s)(version_id v \<mapsto> v)
        \<and> branches (snd (createVersion H e pb d a b s))
             = (branches s)(branch_key (playbook_id v) b \<mapsto> version_id v)
        \<and> storage (snd (createVersion H e pb d a b s))
             = (if fs_fails e then storage s else (storage s)(version_id v @ ''.json'' \<mapsto> v))
        \<and> fst (createVersion H e pb d a b s)
             = (if fs_fails e then Inl (Error ''Version creation failed'' IoError) else Inr v))"
  by (cases "new_version H e pb d a b s")
     (auto simp: createVersion_def persistVersion_def addAuditEntry_def Let_def)

lemma vc_inv_createVersion:
  assumes "vc_inv H s"
  shows "vc_inv H (snd (createVersion H e pb d a b s))"
proof -
  from createVersion_cases[of H e pb d a b s] show ?thesis
  proof (elim disjE exE conjE)
    fix t assume "createVersion H e pb d a b s = (Inl (Error ''Version creation failed'' t), s)"
    with assms show ?thesis by simp
  next
    fix v
    assume v: "new_version H e pb d a b s = Inr v"
      and u: "versions (snd (createVersion H e pb d a b s)) = (versions s)(version_id v \<mapsto> v)"
        "branches (snd (createVersion H e pb d a b s))
             = (branches s)(branch_key (playbook_id v) b \<mapsto> version_id v)"
        "storage (snd (createVersion H e pb d a b s))
             = (if fs_fails e then storage s else (storage s)(version_id v @ ''.json'' \<mapsto> v))"
    from new_version_ok[OF assms v] have "version_ok H v" "version_id v \<noteq> []" by simp_all
    then show ?thesis by (rule vc_inv_upd[OF assms _ _ u])
  qed
qed

lemma createBranch_cases:
  "snd (createBranch e p b f a s) = s
   \<or> (\<exists>v. versions s f = Some v
        \<and> versions (snd (createBranch e p b f a s))
             = (versions s)(version_id (branch_version e b f a v) \<mapsto> branch_version e b f a v)
        \<and> branches (snd (createBranch e p b f a s))
             = (branches s)(branch_key (Some (JStr p)) b \<mapsto> version_id (branch_version e b f a v))
        \<and> storage (snd (createBranch e p b f a s))
             = (if fs_fails e then storage s
                else (storage s)(version_id (branch_version e b f a v) @ ''.json''
                                   \<mapsto> branch_version e b f a v)))"
  by (cases "versions s f")
     (auto simp: createBranch_def persistVersion_def addAuditEntry_def Let_def)

lemma version_ok_branch_version:
  "version_ok H v \<Longrightarrow> version_ok H (branch_version e b f a v)
                      \<and> version_id (branch_version e b f a v) \<noteq> []"
  by (simp add: version_ok_def branch_version_def generateVersionId_nonempty)

lemma vc_inv_createBranch:
  assumes "vc_inv H s"
  shows "vc_inv H (snd (createBranch e p b f a s))"
proof -
  from createBranch_cases[of e p b f a s] show ?thesis
  proof (elim disjE exE conjE)
    assume "snd (createBranch e p b f a s) = s"
    with assms show ?thesis by simp
  next
    fix v
    assume v: "versions s f = Some v"
      and u: "versions (snd (createBranch e p b f a s))
             = (versions s)(version_id (branch_version e b f a v) \<mapsto> branch_version e b f a v)"
        "branches (snd (createBranch e p b f a s))
             = (branches s)(branch_key (Some (JStr p)) b \<mapsto> version_id (branch_version e b f a v))"
        "storage (snd (createBranch e p b f a s))
             = (if fs_fails e then storage s
                else (storage s)(version_id (branch_version e b f a v) @ ''.json''
                                   \<mapsto> branch_version e b f a v))"
    from version_ok_branch_version[OF vc_inv_version[OF assms v], of e b f a]
    have "version_ok H (branch_version e b f a v)" "version_id (branch_version e b f a v) \<noteq> []"
      by simp_all
    then show ?thesis by (rule vc_inv_upd[OF assms _ _ u])
  qed
qed

lemma rollback_cases:
  "snd (rollbackToVersion e p f a r s) = s
   \<or> (\<exists>v num. versions s f = Some v
        \<and> getNextVersionNumber s (Some (JStr p)) (branch v) = Inr num
        \<and> versions (snd (rollbackToVersion e p f a r s))
             = (versions s)(version_id (rollback_version e f a r num (branches s (branch_key (Some (JStr p)) (branch v))) v)
                  \<mapsto> rollback_version e f a r num (branches s (branch_key (Some (JStr p)) (branch v))) v)
        \<and> branches (snd (rollbackToVersion e p f a r s))
             = (branches s)(branch_key (Some (JStr p)) (branch v)
                  \<mapsto> version_id (rollback_version e f a r num (branches s (branch_key (Some (JStr p)) (branch v))) v))
        \<and> storage (snd (rollbackToVersion e p f a r s))
             = (if fs_fails e then storage s
                else (storage s)(version_id (rollback_version e f a r num (branches s (branch_key (Some (JStr p)) (branch v))) v) @ ''.json''
                  \<mapsto> rollback_version e f a r num (branches s (branch_key (Some (JStr p)) (branch v))) v)))"
  by (cases "versions s f")
     (auto simp: rollbackToVersion_def persistVersion_def addAuditEntry_def Let_def rollback_version_def
           split: sum.splits)

lemma version_ok_rollback_version:
  "version_ok H v \<Longrightarrow> version_ok H (rollback_version e f a r (numbered n) h v)
                      \<and> version_id (rollback_version e f a r (numbered n) h v) \<noteq> []"
  by (auto simp: version_ok_def rollback_version_def generateVersionId_nonempty)

lemma vc_inv_rollback:
  assumes "vc_inv H s"
  shows "vc_inv H (snd (rollbackToVersion e p f a r s))"
proof -
  from rollback_cases[of e p f a r s] show ?thesis
  proof (elim disjE exE conjE)
    assume "snd (rollbackToVersion e p f a r s) = s"
    with assms show ?thesis by simp
  next
    fix v num
    let ?rv = "rollback_version e f a r num (branches s (branch_key (Some (JStr p)) (branch v))) v"
    assume v: "versions s f = Some v"
      and num: "getNextVersionNumber s (Some (JStr p)) (branch v) = Inr num"
      and u: "versions (snd (rollbackToVersion e p f a r s)) = (versions s)(version_id ?rv \<mapsto> ?rv)"
        "branches (snd (rollbackToVersion e p f a r s))
             = (branches s)(branch_key (Some (JStr p)) (branch v) \<mapsto> version_id ?rv)"
        "storage (snd (rollbackToVersion e p f a r s))
             = (if fs_fails e then storage s else (storage s)(version_id ?rv @ ''.json'' \<mapsto> ?rv))"
    from getNextVersionNumber_numbered[OF assms, of "Some (JStr p)" "branch v"] num
    obtain n where n: "num = numbered n" by auto
    from version_ok_rollback_version[OF vc_inv_version[OF assms v]]
    have "version_ok H ?rv" "version_id ?rv \<noteq> []"
      unfolding n by simp_all
    then show ?thesis by (rule vc_inv_upd[OF assms _ _ u])
  qed
qed

lemma mergeBranch_not_found:
  assumes "branches s (branch_key (Some (JStr p)) sb) = None
           \<or> branches s (branch_key (Some (JStr p)) sb) = Some []"
  shows "mergeBranch e p sb tb a s
      = (Inl (Error ''Branch merge failed'' (Message (''Source branch '' @ sb @ '' not found''))), s)"
  using assms by (auto simp: mergeBranch_def Let_def)

lemma mergeBranch_found:
  assumes "branches s (branch_key (Some (JStr p)) sb) = Some sid" "sid \<noteq> []"
  shows "versions (snd (mergeBranch e p sb tb a s))
            = (versions s)(version_id (merge_version e sb tb a (branches s (branch_key (Some (JStr p)) tb)) sid (versions s sid))
                 \<mapsto> merge_version e sb tb a (branches s (branch_key (Some (JStr p)) tb)) sid (versions s sid))
        \<and> branches (snd (mergeBranch e p sb tb a s))
            = ((branches s)(branch_key (Some (JStr p)) tb
                 \<mapsto> version_id (merge_version e sb tb a (branches s (branch_key (Some (JStr p)) tb)) sid (versions s sid))))
                           (branch_key (Some (JStr p)) sb := None)
        \<and> storage (snd (mergeBranch e p sb tb a s))
            = (if fs_fails e then storage s
               else (storage s)(version_id (merge_version e sb tb a (branches s (branch_key (Some (JStr p)) tb)) sid (versions s sid)) @ ''.json''
                 \<mapsto> merge_version e sb tb a (branches s (branch_key (Some (JStr p)) tb)) sid (versions s sid)))
        \<and> fst (mergeBranch e p sb tb a s)
            = (if fs_fails e then Inl (Error ''Branch merge failed'' IoError)
               else Inr (merge_version e sb tb a (branches s (branch_key (Some (JStr p)) tb)) sid (versions s sid)))"
  using assms by (auto simp: mergeBranch_def persistVersion_def addAuditEntry_def Let_def)

lemma version_ok_merge_version:
  "version_ok H v \<Longrightarrow> version_ok H (merge_version e sb tb a t sid (Some v))"
  by (simp add: version_ok_def merge_version_def spread_def)

lemma version_id_merge_version:
  "version_id (merge_version e sb tb a t sid sv) = generateVersionId (uuid_version e)"
  by (simp add: merge_version_def)

lemma vc_inv_mergeBranch:
  assumes "vc_inv H s"
  shows "vc_inv H (snd (mergeBranch e p sb tb a s))"
proof (cases "branches s (branch_key (Some (JStr p)) sb)")
  case None
  then show ?thesis using assms by (simp add: mergeBranch_not_found)
next
  case (Some sid)
  let ?mv = "merge_version e sb tb a (branches s (branch_key (Some (JStr p)) tb)) sid (versions s sid)"
  have sid: "sid \<noteq> []" by (rule vc_inv_head_nonempty[OF assms Some])
  from mergeBranch_found[OF Some sid, of e tb a]
  have u: "versions (snd (mergeBranch e p sb tb a s)) = (versions s)(version_id ?mv \<mapsto> ?mv)"
    "branches (snd (mergeBranch e p sb tb a s)) = ((branches s)(branch_key (Some (JStr p)) tb \<mapsto> version_id ?mv))
                           (branch_key (Some (JStr p)) sb := None)"
    "storage (snd (mergeBranch e p sb tb a s))
       = (if fs_fails e then storage s else (storage s)(version_id ?mv @ ''.json'' \<mapsto> ?mv))"
    by simp_all
  from vc_inv_head[OF assms Some] obtain v where v: "versions s sid = Some v" by blast
  have ok: "version_ok H ?mv"
    unfolding v by (rule version_ok_merge_version[OF vc_inv_version[OF assms v]])
  have ne: "version_id ?mv \<noteq> []"
    by (simp add: version_id_merge_version generateVersionId_nonempty)
  show ?thesis by (rule vc_inv_upd_del[OF assms ok ne u])
qed

lemma vc_inv_load_files: "vc_inv H s \<Longrightarrow> vc_inv H (load_files files s)"
proof (induction files arbitrary: s)
  case Nil
  then show ?case by simp
next
  case (Cons fname rest)
  show ?case
  proof (cases "storage s fname")
    case None
    then show ?thesis using Cons.prems by simp
  next
    case (Some v)
    let ?s = "s\<lparr>versions := (versions s)(version_id v \<mapsto> v),
               branches := (branches s)(branch_key (playbook_id v) (branch v) \<mapsto> version_id v)\<rparr>"
    from vc_inv_file [OF Cons.prems Some] have ok: "version_ok H v" "version_id v \<noteq> []"
      by simp_all
    have "vc_inv H ?s"
      by (rule vc_inv_upd [OF Cons.prems ok, where failed = True]) simp_all
    then show ?thesis using Some Cons.IH by simp
  qed
qed

lemma vc_inv_loadVersions: "vc_inv H s \<Longrightarrow> vc_inv H (loadVersions files s)"
  by (simp add: loadVersions_def vc_inv_load_files)

lemma vc_inv_restart: "vc_inv H s \<Longrightarrow> vc_inv H (restart s)"
  by (simp add: vc_inv_def restart_def init_state_def)

lemma reachable_inv: "reachable H s \<Longrightarrow> vc_inv H s"
  by (induction rule: reachable.induct)
     (simp_all add: vc_inv_init vc_inv_createVersion vc_inv_createBranch vc_inv_mergeBranch
        vc_inv_rollback vc_inv_loadVersions vc_inv_restart)

section \<open>Claims about the version store\<close>

text \<open>What holds of every version stored in a state that the engine reaches by
  \<open>createVersion\<close>, \<open>createBranch\<close>, \<open>mergeBranch\<close> and \<open>rollbackToVersion\<close>: it has a
  snapshot and a checksum, and the checksum is \<open>calculateChecksum\<close> of the snapshot.\<close>

lemma stored_checksum_is_calculateChecksum:
  assumes "reachable H s" and "versions s vid = Some v"
  shows "\<exists>snap c. playbook_snapshot v = Some snap \<and> checksum v = Some c
                  \<and> calculateChecksum H snap = Inr c"
  using vc_inv_version [OF reachable_inv [OF assms(1)] assms(2)]
  by (simp add: version_ok_def)

lemma reachable_state_3: "reachable id state_3"
  unfolding state_3_def state_2_def state_1_def
  by (intro reachable.intros)

lemma reachable_state_4: "reachable id state_4"
  unfolding state_4_def by (intro reachable.intros reachable_state_3)

text \<open>
  C2 does not hold of the code. Take the identity for the hash, so that a checksum is the
  very string that is hashed. The version \<open>v_a_1\<close> that \<open>createVersion\<close> stores for
  \<open>example_playbook\<close>, and the version \<open>v_a_4\<close> that \<open>mergeBranch\<close> stores in \<open>state_4\<close>, have
  the whole playbook as snapshot; their checksum is the canonical serialization of
  \<open>{"playbook_id": "pb1", "use_case": {}}\<close>, the snapshot with every field of \<open>use_case\<close>
  left out, and that is not the canonical serialization of the snapshot.
\<close>

theorem stored_checksum_not_canonical:
  "map_option playbook_snapshot (versions state_1 ''v_a_1'') = Some (Some example_playbook)
   \<and> map_option checksum (versions state_1 ''v_a_1'')
       = Some (Some (canonicalize (JObj [(''playbook_id'', JStr ''pb1''), (''use_case'', JObj [])])))
   \<and> map_option playbook_snapshot (versions state_4 ''v_a_4'') = Some (Some example_playbook)
   \<and> map_option checksum (versions state_4 ''v_a_4'')
       = Some (Some (canonicalize (JObj [(''playbook_id'', JStr ''pb1''), (''use_case'', JObj [])])))
   \<and> canonicalize (JObj [(''playbook_id'', JStr ''pb1''), (''use_case'', JObj [])])
       \<noteq> canonicalize example_playbook"
proof -
  have a: "map_option playbook_snapshot (versions state_1 ''v_a_1'') = Some (Some example_playbook)"
    by code_simp
  have b: "map_option checksum (versions state_1 ''v_a_1'')
       = Some (Some (canonicalize (JObj [(''playbook_id'', JStr ''pb1''), (''use_case'', JObj [])])))"
    by code_simp
  have c: "map_option playbook_snapshot (versions state_4 ''v_a_4'') = Some (Some example_playbook)"
    by code_simp
  have d: "map_option checksum (versions state_4 ''v_a_4'')
       = Some (Some (canonicalize (JObj [(''playbook_id'', JStr ''pb1''), (''use_case'', JObj [])])))"
    by code_simp
  have e: "canonicalize (JObj [(''playbook_id'', JStr ''pb1''), (''use_case'', JObj [])])
       \<noteq> canonicalize example_playbook"
    by code_simp
  show ?thesis
    using a b c d e by simp
qed

text \<open>
  C5. For a state the engine has reached, a playbook and a branch: when two \<open>createVersion\<close>
  calls for the same \<open>playbook_id\<close> on the same branch follow each other and both return a
  version, the first has some number \<open>1.0.n\<close> and the second \<open>1.0.(n+1)\<close> (so the patch
  component goes up by one), the second's \<open>parent_version\<close> is the first's \<open>version_id\<close>, and
  on a branch with no pointer the first is \<open>1.0.0\<close> and the second \<open>1.0.1\<close>.
\<close>

theorem sequential_createVersion_numbers:
  assumes reach: "reachable H s"
      and first: "createVersion H e1 pb d1 a1 b s = (Inr v1, s1)"
      and second: "createVersion H e2 pb' d2 a2 b s1 = (Inr v2, s2)"
      and same_id: "get_prop (Some pb') ''playbook_id'' = get_prop (Some pb) ''playbook_id''"
  shows "(\<exists>n. version_number v1 = Some (numbered n) \<and> version_number v2 = Some (numbered (Suc n))
              \<and> patch_component (version_number v1) = Some (int n)
              \<and> patch_component (version_number v2) = Some (int n + 1))
         \<and> parent_version v2 = Some (version_id v1)
         \<and> (branches s (branch_key (playbook_id v1) b) = None
              \<longrightarrow> version_number v1 = Some ''1.0.0'' \<and> version_number v2 = Some ''1.0.1'')"
proof -
  have inv: "vc_inv H s" by (rule reachable_inv [OF reach])
  from createVersion_cases [of H e1 pb d1 a1 b s] first
  have nv1: "new_version H e1 pb d1 a1 b s = Inr v1"
    and vs1: "versions s1 = (versions s)(version_id v1 \<mapsto> v1)"
    and bs1: "branches s1 = (branches s)(branch_key (playbook_id v1) b \<mapsto> version_id v1)"
    by (auto split: if_splits)
  from new_version_fields [OF nv1] obtain pid num1 where
    pid: "get_prop (Some pb) ''playbook_id'' = Inr pid" "playbook_id v1 = pid"
    and num1: "getNextVersionNumber s pid b = Inr num1" "version_number v1 = Some num1"
    by blast
  from getNextVersionNumber_numbered [OF inv, of pid b] num1
  obtain n where n: "version_number v1 = Some (numbered n)" by auto
  have id1: "version_id v1 \<noteq> []"
    using new_version_ok [OF inv nv1] by simp
  from createVersion_cases [of H e2 pb' d2 a2 b s1] second
  have nv2: "new_version H e2 pb' d2 a2 b s1 = Inr v2"
    by (auto split: if_splits)
  from new_version_fields [OF nv2] same_id pid obtain num2 where
    num2: "getNextVersionNumber s1 pid b = Inr num2" "version_number v2 = Some num2"
    and par: "parent_version v2 = getParentVersion s1 pid b"
    by auto
  have head: "branches s1 (branch_key pid b) = Some (version_id v1)"
    using bs1 pid by simp
  have stored: "versions s1 (version_id v1) = Some v1"
    using vs1 by simp
  have "getNextVersionNumber s1 pid b = Inr (increment_patch (numbered n))"
    unfolding getNextVersionNumber_def using head id1 stored n by simp
  with num2 have inc: "version_number v2 = Some (increment_patch (numbered n))"
    by simp
  then have n2: "version_number v2 = Some (numbered (Suc n))"
    by (simp add: increment_patch_numbered)
  have parent: "parent_version v2 = Some (version_id v1)"
    using par head id1 by (simp add: getParentVersion_def)
  have fresh: "version_number v1 = Some ''1.0.0'' \<and> version_number v2 = Some ''1.0.1''"
    if none: "branches s (branch_key (playbook_id v1) b) = None"
  proof -
    have "getNextVersionNumber s pid b = Inr ''1.0.0''"
      unfolding getNextVersionNumber_def using none pid by simp
    with num1 have one: "version_number v1 = Some ''1.0.0''" by simp
    with n have "numbered n = ''1.0.0''" by simp
    with inc have "version_number v2 = Some (increment_patch ''1.0.0'')"
      by simp
    moreover have "increment_patch ''1.0.0'' = ''1.0.1''"
      by code_simp
    ultimately show ?thesis using one by simp
  qed
  show ?thesis
    using n n2 parent fresh by (auto simp: patch_component_numbered)
qed

theorem sequential_createVersion_numbers_witness:
  "reachable id init_state
   \<and> (\<exists>v1 s1 v2 s2.
         createVersion id env_1 example_playbook ''first'' ''system'' ''main'' init_state = (Inr v1, s1)
       \<and> createVersion id env_2 example_playbook ''second'' ''system'' ''main'' s1 = (Inr v2, s2)
       \<and> version_number v1 = Some ''1.0.0'' \<and> version_number v2 = Some ''1.0.1''
       \<and> patch_component (version_number v1) = Some 0
       \<and> patch_component (version_number v2) = Some 1
       \<and> parent_version v2 = Some (version_id v1))"
proof -
  let ?r1 = "createVersion id env_1 example_playbook ''first'' ''system'' ''main'' init_state"
  let ?r2 = "createVersion id env_2 example_playbook ''second'' ''system'' ''main'' (snd ?r1)"
  have "\<not> isl (fst ?r1)" by code_simp
  then have e1: "?r1 = (Inr (projr (fst ?r1)), snd ?r1)"
    by (simp add: prod_eq_iff)
  have "\<not> isl (fst ?r2)" by code_simp
  then have e2: "?r2 = (Inr (projr (fst ?r2)), snd ?r2)"
    by (simp add: prod_eq_iff)
  have none: "branches init_state (branch_key (playbook_id (projr (fst ?r1))) ''main'') = None"
    by (simp add: init_state_def)
  have p0: "patch_component (Some ''1.0.0'') = Some 0" by code_simp
  have p1: "patch_component (Some ''1.0.1'') = Some 1" by code_simp
  from sequential_createVersion_numbers [OF r_init e1 e2 refl] none
  have "version_number (projr (fst ?r1)) = Some ''1.0.0''"
    "version_number (projr (fst ?r2)) = Some ''1.0.1''"
    "parent_version (projr (fst ?r2)) = Some (version_id (projr (fst ?r1)))"
    by blast+
  with e1 e2 p0 p1 show ?thesis
    by (intro conjI r_init exI [of _ "projr (fst ?r1)"] exI [of _ "snd ?r1"]
          exI [of _ "projr (fst ?r2)"] exI [of _ "snd ?r2"]) simp_all
qed

text \<open>
  C3. In a state the engine has reached: when the source branch has no pointer,
  \<open>mergeBranch\<close> throws \<open>Branch merge failed: Source branch ... not found\<close> and changes nothing.
  Otherwise the pointer is the id of a stored version, and the call stores a version on the
  target branch with the snapshot of that source head, \<open>parent_version\<close> the target's pointer
  before the call and \<open>merge_source\<close> the source head's id; afterwards the source branch has
  no pointer, the target branch (when it is another branch) points to the new version, and
  the call returns the new version unless the file write fails.
\<close>

theorem mergeBranch_source_wins:
  assumes reach: "reachable H s"
  shows "(branches s (branch_key (Some (JStr p)) sb) = None
            \<longrightarrow> mergeBranch e p sb tb a s
                  = (Inl (Error ''Branch merge failed''
                            (Message (''Source branch '' @ sb @ '' not found''))), s))
         \<and> (\<forall>sid. branches s (branch_key (Some (JStr p)) sb) = Some sid
            \<longrightarrow> (\<exists>sv mv snap.
                   versions s sid = Some sv
                 \<and> versions (snd (mergeBranch e p sb tb a s)) (version_id mv) = Some mv
                 \<and> version_id mv = generateVersionId (uuid_version e)
                 \<and> branch mv = tb
                 \<and> playbook_snapshot sv = Some snap \<and> playbook_snapshot mv = Some snap
                 \<and> parent_version mv = branches s (branch_key (Some (JStr p)) tb)
                 \<and> merge_source mv = Some sid
                 \<and> branches (snd (mergeBranch e p sb tb a s)) (branch_key (Some (JStr p)) sb) = None
                 \<and> (sb \<noteq> tb \<longrightarrow> branches (snd (mergeBranch e p sb tb a s))
                                      (branch_key (Some (JStr p)) tb) = Some (version_id mv))
                 \<and> fst (mergeBranch e p sb tb a s)
                     = (if fs_fails e then Inl (Error ''Branch merge failed'' IoError)
                        else Inr mv)))"
proof (intro conjI impI allI)
  assume "branches s (branch_key (Some (JStr p)) sb) = None"
  then show "mergeBranch e p sb tb a s
      = (Inl (Error ''Branch merge failed'' (Message (''Source branch '' @ sb @ '' not found''))), s)"
    by (simp add: mergeBranch_not_found)
next
  fix sid
  assume head: "branches s (branch_key (Some (JStr p)) sb) = Some sid"
  have inv: "vc_inv H s" by (rule reachable_inv [OF reach])
  have sid: "sid \<noteq> []" by (rule vc_inv_head_nonempty [OF inv head])
  from vc_inv_head [OF inv head] obtain sv where sv: "versions s sid = Some sv" by blast
  from vc_inv_version [OF inv sv] obtain snap where snap: "playbook_snapshot sv = Some snap"
    by (auto simp: version_ok_def)
  let ?mv = "merge_version e sb tb a (branches s (branch_key (Some (JStr p)) tb)) sid (Some sv)"
  have keys: "sb \<noteq> tb \<Longrightarrow> branch_key (Some (JStr p)) tb \<noteq> branch_key (Some (JStr p)) sb"
    by (simp add: branch_key_def)
  from mergeBranch_found [OF head sid, of e tb a]
  have eff: "versions (snd (mergeBranch e p sb tb a s)) = (versions s)(version_id ?mv \<mapsto> ?mv)"
    "branches (snd (mergeBranch e p sb tb a s))
       = ((branches s)(branch_key (Some (JStr p)) tb \<mapsto> version_id ?mv))
           (branch_key (Some (JStr p)) sb := None)"
    "fst (mergeBranch e p sb tb a s)
       = (if fs_fails e then Inl (Error ''Branch merge failed'' IoError) else Inr ?mv)"
    unfolding sv by simp_all
  have fields: "version_id ?mv = generateVersionId (uuid_version e)" "branch ?mv = tb"
    "playbook_snapshot ?mv = Some snap"
    "parent_version ?mv = branches s (branch_key (Some (JStr p)) tb)"
    "merge_source ?mv = Some sid"
    using snap by (simp_all add: merge_version_def spread_def)
  show "\<exists>sv mv snap.
                   versions s sid = Some sv
                 \<and> versions (snd (mergeBranch e p sb tb a s)) (version_id mv) = Some mv
                 \<and> version_id mv = generateVersionId (uuid_version e)
                 \<and> branch mv = tb
                 \<and> playbook_snapshot sv = Some snap \<and> playbook_snapshot mv = Some snap
                 \<and> parent_version mv = branches s (branch_key (Some (JStr p)) tb)
                 \<and> merge_source mv = Some sid
                 \<and> branches (snd (mergeBranch e p sb tb a s)) (branch_key (Some (JStr p)) sb) = None
                 \<and> (sb \<noteq> tb \<longrightarrow> branches (snd (mergeBranch e p sb tb a s))
                                      (branch_key (Some (JStr p)) tb) = Some (version_id mv))
                 \<and> fst (mergeBranch e p sb tb a s)
                     = (if fs_fails e then Inl (Error ''Branch merge failed'' IoError)
                        else Inr mv)"
    apply (rule exI [of _ sv])
    apply (rule exI [of _ ?mv])
    apply (rule exI [of _ snap])
    using sv snap fields keys
    apply (simp only: eff)
    apply simp
    done
qed

text \<open>In \<open>state_3\<close> the branch \<open>feature\<close> points to \<open>v_a_2\<close> and \<open>main\<close> to \<open>v_a_3\<close>; the
  branch \<open>hotfix\<close> does not exist.\<close>

theorem mergeBranch_source_wins_witness:
  "reachable id state_3
   \<and> branches state_3 (branch_key (Some (JStr ''pb1'')) ''hotfix'') = None
   \<and> branches state_3 (branch_key (Some (JStr ''pb1'')) ''feature'') = Some ''v_a_2''
   \<and> mergeBranch env_4 ''pb1'' ''hotfix'' ''main'' ''system'' state_3
       = (Inl (Error ''Branch merge failed'' (Message ''Source branch hotfix not found'')), state_3)
   \<and> (\<exists>sv mv snap.
          versions state_3 ''v_a_2'' = Some sv
        \<and> fst (mergeBranch env_4 ''pb1'' ''feature'' ''main'' ''system'' state_3) = Inr mv
        \<and> versions state_4 ''v_a_4'' = Some mv
        \<and> playbook_snapshot sv = Some snap \<and> playbook_snapshot mv = Some snap
        \<and> parent_version mv = Some ''v_a_3''
        \<and> merge_source mv = Some ''v_a_2''
        \<and> branches state_4 ''pb1:feature'' = None
        \<and> branches state_4 ''pb1:main'' = Some ''v_a_4'')"
proof -
  have none: "branches state_3 (branch_key (Some (JStr ''pb1'')) ''hotfix'') = None"
    by code_simp
  have head: "branches state_3 (branch_key (Some (JStr ''pb1'')) ''feature'') = Some ''v_a_2''"
    by code_simp
  have target: "branches state_3 (branch_key (Some (JStr ''pb1'')) ''main'') = Some ''v_a_3''"
    by code_simp
  have ok: "\<not> fs_fails env_4" "generateVersionId (uuid_version env_4) = ''v_a_4''"
    "branch_key (Some (JStr ''pb1'')) ''feature'' = ''pb1:feature''"
    "branch_key (Some (JStr ''pb1'')) ''main'' = ''pb1:main''" "''feature'' \<noteq> ''main''"
    by (simp_all add: env_4_def generateVersionId_def branch_key_def template_def)
  note inst = mergeBranch_source_wins [OF reachable_state_3, of "''pb1''" _ env_4 "''main''" "''system''"]
  have a: "mergeBranch env_4 ''pb1'' ''hotfix'' ''main'' ''system'' state_3
       = (Inl (Error ''Branch merge failed'' (Message ''Source branch hotfix not found'')), state_3)"
    using inst [of "''hotfix''"] none by simp
  from inst [of "''feature''"] head obtain sv mv snap where
    "versions state_3 ''v_a_2'' = Some sv"
    "versions (snd (mergeBranch env_4 ''pb1'' ''feature'' ''main'' ''system'' state_3)) (version_id mv) = Some mv"
    "version_id mv = generateVersionId (uuid_version env_4)"
    "playbook_snapshot sv = Some snap" "playbook_snapshot mv = Some snap"
    "parent_version mv = branches state_3 (branch_key (Some (JStr ''pb1'')) ''main'')"
    "merge_source mv = Some ''v_a_2''"
    "branches (snd (mergeBranch env_4 ''pb1'' ''feature'' ''main'' ''system'' state_3))
        (branch_key (Some (JStr ''pb1'')) ''feature'') = None"
    "''feature'' \<noteq> ''main'' \<longrightarrow> branches (snd (mergeBranch env_4 ''pb1'' ''feature'' ''main'' ''system'' state_3))
        (branch_key (Some (JStr ''pb1'')) ''main'') = Some (version_id mv)"
    "fst (mergeBranch env_4 ''pb1'' ''feature'' ''main'' ''system'' state_3)
       = (if fs_fails env_4 then Inl (Error ''Branch merge failed'' IoError) else Inr mv)"
    by blast
  then have "versions state_3 ''v_a_2'' = Some sv
        \<and> fst (mergeBranch env_4 ''pb1'' ''feature'' ''main'' ''system'' state_3) = Inr mv
        \<and> versions state_4 ''v_a_4'' = Some mv
        \<and> playbook_snapshot sv = Some snap \<and> playbook_snapshot mv = Some snap
        \<and> parent_version mv = Some ''v_a_3''
        \<and> merge_source mv = Some ''v_a_2''
        \<and> branches state_4 ''pb1:feature'' = None
        \<and> branches state_4 ''pb1:main'' = Some ''v_a_4''"
    using ok target by (simp add: state_4_def)
  then show ?thesis
    using reachable_state_3 none head a by blast
qed

text \<open>
  C9. The version that \<open>mergeBranch\<close> returns has the \<open>version_number\<close> and the \<open>checksum\<close> of
  the source head: the number is copied, not computed from the target's head. So when the
  source head's patch component is below that of the target's head, the new target head has
  a lower number than its \<open>parent_version\<close>.
\<close>

theorem mergeBranch_copies_number_and_checksum:
  assumes head: "branches s (branch_key (Some (JStr p)) sb) = Some sid"
      and sv: "versions s sid = Some sv"
      and merged: "mergeBranch e p sb tb a s = (Inr mv, s')"
  shows "version_number mv = version_number sv \<and> checksum mv = checksum sv
         \<and> parent_version mv = branches s (branch_key (Some (JStr p)) tb)
         \<and> (\<forall>tid tv m n.
               sb \<noteq> tb \<and> branches s (branch_key (Some (JStr p)) tb) = Some tid
               \<and> versions s tid = Some tv \<and> tid \<noteq> version_id mv
               \<and> patch_component (version_number sv) = Some m
               \<and> patch_component (version_number tv) = Some n \<and> m < n
               \<longrightarrow> branches s' (branch_key (Some (JStr p)) tb) = Some (version_id mv)
                   \<and> versions s' (version_id mv) = Some mv
                   \<and> parent_version mv = Some tid
                   \<and> versions s' tid = Some tv
                   \<and> patch_component (version_number mv) = Some m
                   \<and> patch_component (version_number tv) = Some n \<and> m < n)"
proof -
  have sid: "sid \<noteq> []"
    using merged head by (auto simp: mergeBranch_def Let_def)
  let ?mv = "merge_version e sb tb a (branches s (branch_key (Some (JStr p)) tb)) sid (Some sv)"
  from mergeBranch_found [OF head sid, of e tb a] merged
  have eff: "versions s' = (versions s)(version_id ?mv \<mapsto> ?mv)"
    "branches s' = ((branches s)(branch_key (Some (JStr p)) tb \<mapsto> version_id ?mv))
           (branch_key (Some (JStr p)) sb := None)"
    and mv: "mv = ?mv"
    unfolding sv by (auto split: if_splits)
  have fields: "version_number ?mv = version_number sv" "checksum ?mv = checksum sv"
    "parent_version ?mv = branches s (branch_key (Some (JStr p)) tb)"
    by (simp_all add: merge_version_def spread_def)
  have keys: "sb \<noteq> tb \<Longrightarrow> branch_key (Some (JStr p)) tb \<noteq> branch_key (Some (JStr p)) sb"
    by (simp add: branch_key_def)
  show ?thesis
    unfolding mv using fields keys by (auto simp: eff)
qed

theorem mergeBranch_copies_number_and_checksum_witness:
  "branches state_3 (branch_key (Some (JStr ''pb1'')) ''feature'') = Some ''v_a_2''
   \<and> branches state_3 (branch_key (Some (JStr ''pb1'')) ''main'') = Some ''v_a_3''
   \<and> (\<exists>sv tv mv.
          versions state_3 ''v_a_2'' = Some sv \<and> versions state_3 ''v_a_3'' = Some tv
        \<and> mergeBranch env_4 ''pb1'' ''feature'' ''main'' ''system'' state_3 = (Inr mv, state_4)
        \<and> version_number sv = Some ''1.0.0'' \<and> version_number tv = Some ''1.0.1''
        \<and> version_number mv = Some ''1.0.0'' \<and> checksum mv = checksum sv
        \<and> branches state_4 (branch_key (Some (JStr ''pb1'')) ''main'') = Some (version_id mv)
        \<and> parent_version mv = Some ''v_a_3''
        \<and> versions state_4 ''v_a_3'' = Some tv
        \<and> patch_component (version_number mv) = Some 0
        \<and> patch_component (version_number tv) = Some 1)"
proof -
  let ?r = "mergeBranch env_4 ''pb1'' ''feature'' ''main'' ''system'' state_3"
  have head: "branches state_3 (branch_key (Some (JStr ''pb1'')) ''feature'') = Some ''v_a_2''"
    by code_simp
  have target: "branches state_3 (branch_key (Some (JStr ''pb1'')) ''main'') = Some ''v_a_3''"
    by code_simp
  have "versions state_3 ''v_a_2'' \<noteq> None" by code_simp
  then obtain sv where sv: "versions state_3 ''v_a_2'' = Some sv" by blast
  have "versions state_3 ''v_a_3'' \<noteq> None" by code_simp
  then obtain tv where tv: "versions state_3 ''v_a_3'' = Some tv" by blast
  have nsv: "map_option version_number (versions state_3 ''v_a_2'') = Some (Some ''1.0.0'')"
    by code_simp
  have ntv: "map_option version_number (versions state_3 ''v_a_3'') = Some (Some ''1.0.1'')"
    by code_simp
  have "\<not> isl (fst ?r)" by code_simp
  then have r: "?r = (Inr (projr (fst ?r)), state_4)"
    by (simp add: prod_eq_iff state_4_def)
  have fresh: "''v_a_3'' \<noteq> version_id (projr (fst ?r))"
    by code_simp
  have nsv': "version_number sv = Some ''1.0.0''" using nsv sv by simp
  have ntv': "version_number tv = Some ''1.0.1''" using ntv tv by simp
  have p0: "patch_component (version_number sv) = Some 0" unfolding nsv' by code_simp
  have p1: "patch_component (version_number tv) = Some 1" unfolding ntv' by code_simp
  note main = mergeBranch_copies_number_and_checksum [OF head sv r]
  from main have copy: "version_number (projr (fst ?r)) = version_number sv"
    "checksum (projr (fst ?r)) = checksum sv"
    by blast+
  have "branches state_4 (branch_key (Some (JStr ''pb1'')) ''main'') = Some (version_id (projr (fst ?r)))
        \<and> versions state_4 (version_id (projr (fst ?r))) = Some (projr (fst ?r))
        \<and> parent_version (projr (fst ?r)) = Some ''v_a_3''
        \<and> versions state_4 ''v_a_3'' = Some tv
        \<and> patch_component (version_number (projr (fst ?r))) = Some 0
        \<and> patch_component (version_number tv) = Some 1 \<and> (0::int) < 1"
    using main [THEN conjunct2, THEN conjunct2, THEN conjunct2, rule_format, of "''v_a_3''" tv 0 1]
      target tv fresh p0 p1 by simp
  then show ?thesis
    using head target sv tv nsv' ntv' r copy
    by (intro conjI exI [of _ sv] exI [of _ tv] exI [of _ "projr (fst ?r)"]) simp_all
qed

lemma version_metadata_of_object:
  assumes "map_of kvs ''use_case'' = Some (JObj uc)"
      and "map_of uc ''use_case_metadata'' = Some (JObj ucm)"
      and "map_of uc ''risk_model'' = Some (JObj rm)"
  shows "\<exists>md. version_metadata_of (JObj kvs) = Inr md"
  using assms by (simp add: version_metadata_of_def bindE_def)

lemma last_addAuditEntry: "last (auditTrail (addAuditEntry entry s)) = entry"
  by (simp add: addAuditEntry_def Let_def last_drop)

text \<open>
  C1, as the code has it. \<open>createVersion\<close> does not look for \<open>playbook_id\<close>: for a playbook
  object without that field whose \<open>use_case.use_case_metadata\<close> and \<open>use_case.risk_model\<close>
  are objects, in a state the engine has reached and with a file write that succeeds, the
  call returns a version whose \<open>playbook_id\<close> is \<open>undefined\<close>, stores it, and points the
  branch key \<open>undefined:<branch>\<close> at it.
\<close>

theorem createVersion_without_playbook_id:
  assumes reach: "reachable H s"
      and no_id: "map_of kvs ''playbook_id'' = None"
      and use_case: "map_of kvs ''use_case'' = Some (JObj uc)"
      and use_case_metadata: "map_of uc ''use_case_metadata'' = Some (JObj ucm)"
      and risk_model: "map_of uc ''risk_model'' = Some (JObj rm)"
      and written: "\<not> fs_fails e"
  shows "\<exists>v s'. createVersion H e (JObj kvs) d a b s = (Inr v, s')
           \<and> playbook_id v = None
           \<and> playbook_snapshot v = Some (JObj kvs)
           \<and> versions s' (version_id v) = Some v
           \<and> branches s' (''undefined:'' @ b) = Some (version_id v)"
proof -
  have inv: "vc_inv H s" by (rule reachable_inv [OF reach])
  from getNextVersionNumber_numbered [OF inv, of None b]
  obtain n where n: "getNextVersionNumber s None b = Inr (numbered n)" by blast
  from version_metadata_of_object [OF use_case use_case_metadata risk_model]
  obtain md where md: "version_metadata_of (JObj kvs) = Inr md" by blast
  have "\<exists>v. new_version H e (JObj kvs) d a b s = Inr v"
    by (simp add: new_version_def bindE_def calculateChecksum_object no_id n md)
  then obtain v where v: "new_version H e (JObj kvs) d a b s = Inr v" by blast
  from new_version_fields [OF v] no_id
  have fields: "playbook_id v = None" "playbook_snapshot v = Some (JObj kvs)"
    by auto
  from createVersion_cases [of H e "JObj kvs" d a b s] v written
  have eff: "versions (snd (createVersion H e (JObj kvs) d a b s)) = (versions s)(version_id v \<mapsto> v)"
    "branches (snd (createVersion H e (JObj kvs) d a b s))
       = (branches s)(branch_key (playbook_id v) b \<mapsto> version_id v)"
    "fst (createVersion H e (JObj kvs) d a b s) = Inr v"
    by auto
  have key: "branch_key (playbook_id v) b = ''undefined:'' @ b"
    by (simp add: fields branch_key_def template_def)
  have "createVersion H e (JObj kvs) d a b s = (Inr v, snd (createVersion H e (JObj kvs) d a b s))"
    using eff(3) by (simp add: prod_eq_iff)
  moreover have "versions (snd (createVersion H e (JObj kvs) d a b s)) (version_id v) = Some v"
    by (simp add: eff(1))
  moreover have "branches (snd (createVersion H e (JObj kvs) d a b s)) (''undefined:'' @ b)
                   = Some (version_id v)"
    by (simp only: eff(2) key fun_upd_same)
  ultimately show ?thesis
    using fields by blast
qed

theorem createVersion_without_playbook_id_witness:
  "reachable id init_state
   \<and> map_of [(''use_case'', JObj [(''use_case_metadata'', JObj [(''category'', JStr ''auth'')]),
                                  (''risk_model'', JObj [(''risk_score'', JNum 85)])])]
        ''playbook_id'' = None
   \<and> \<not> fs_fails env_1
   \<and> (\<exists>v s'. createVersion id env_1 anonymous_playbook ''first'' ''system'' ''main'' init_state
                = (Inr v, s')
           \<and> playbook_id v = None
           \<and> playbook_snapshot v = Some anonymous_playbook
           \<and> versions s' (version_id v) = Some v
           \<and> branches s' ''undefined:main'' = Some (version_id v))"
proof -
  have w: "\<not> fs_fails env_1" by (simp add: env_1_def)
  show ?thesis
    using createVersion_without_playbook_id [OF r_init _ _ _ _ w,
        of "[(''use_case'', JObj [(''use_case_metadata'', JObj [(''category'', JStr ''auth'')]),
                                  (''risk_model'', JObj [(''risk_score'', JNum 85)])])]"
           "[(''use_case_metadata'', JObj [(''category'', JStr ''auth'')]),
             (''risk_model'', JObj [(''risk_score'', JNum 85)])]"
           "[(''category'', JStr ''auth'')]" "[(''risk_score'', JNum 85)]"
           id "''first''" "''system''" "''main''"]
      w
    by (simp add: anonymous_playbook_def r_init)
qed

text \<open>The claim as the specification states it fails: \<open>anonymous_playbook\<close> has no
  \<open>playbook_id\<close>, and \<open>createVersion\<close> returns a version for it and stores one.\<close>

theorem createVersion_no_playbook_id_check:
  "get_prop (Some anonymous_playbook) ''playbook_id'' = Inr None
   \<and> \<not> isl (fst (createVersion id env_1 anonymous_playbook ''first'' ''system'' ''main'' init_state))
   \<and> versions (snd (createVersion id env_1 anonymous_playbook ''first'' ''system'' ''main''
                      init_state)) ''v_a_1'' \<noteq> None"
proof -
  have a: "get_prop (Some anonymous_playbook) ''playbook_id'' = Inr None"
    by (simp add: anonymous_playbook_def)
  have b: "\<not> isl (fst (createVersion id env_1 anonymous_playbook ''first'' ''system'' ''main'' init_state))"
    by code_simp
  have c: "versions (snd (createVersion id env_1 anonymous_playbook ''first'' ''system'' ''main''
                      init_state)) ''v_a_1'' \<noteq> None"
    by code_simp
  show ?thesis using a b c by simp
qed

text \<open>
  C4, as the code has it. \<open>createVersion\<close> sets the version in the in-memory map and moves
  the branch pointer first, and writes the version file afterwards. When the write fails
  the call throws with the version already in the map and the branch already pointing to
  it, the files and the audit trail as they were; when the write succeeds the file holds
  the version and the audit entry of the call is the last of the trail.
\<close>

theorem createVersion_memory_before_storage:
  assumes built: "new_version H e pb d a b s = Inr v"
  shows "(fs_fails e \<longrightarrow>
            fst (createVersion H e pb d a b s) = Inl (Error ''Version creation failed'' IoError)
          \<and> versions (snd (createVersion H e pb d a b s)) (version_id v) = Some v
          \<and> branches (snd (createVersion H e pb d a b s)) (branch_key (playbook_id v) b)
               = Some (version_id v)
          \<and> storage (snd (createVersion H e pb d a b s)) = storage s
          \<and> auditTrail (snd (createVersion H e pb d a b s)) = auditTrail s)
       \<and> (\<not> fs_fails e \<longrightarrow>
            fst (createVersion H e pb d a b s) = Inr v
          \<and> versions (snd (createVersion H e pb d a b s)) (version_id v) = Some v
          \<and> branches (snd (createVersion H e pb d a b s)) (branch_key (playbook_id v) b)
               = Some (version_id v)
          \<and> storage (snd (createVersion H e pb d a b s)) = (storage s)(version_id v @ ''.json'' \<mapsto> v)
          \<and> audit_version_id (last (auditTrail (snd (createVersion H e pb d a b s)))) = version_id v
          \<and> action (last (auditTrail (snd (createVersion H e pb d a b s)))) = ''create_version'')"
proof (cases "fs_fails e")
  case True
  then show ?thesis
    using built by (simp add: createVersion_def persistVersion_def Let_def)
next
  case False
  have "createVersion H e pb d a b s
      = (Inr v,
         addAuditEntry
           \<lparr>audit_id = uuid_audit e, action = ''create_version'',
            audit_version_id = version_id v, audit_playbook_id = playbook_id v,
            audit_author = a, audit_timestamp = clock e, audit_description = d,
            audit_details = [(''checksum'', template (map_option JStr (checksum v)))]\<rparr>
           (s\<lparr>versions := (versions s)(version_id v \<mapsto> v),
              branches := (branches s)(branch_key (playbook_id v) b \<mapsto> version_id v),
              storage := (storage s)(version_id v @ ''.json'' \<mapsto> v)\<rparr>))"
    using built False by (simp add: createVersion_def persistVersion_def Let_def)
  then show ?thesis
    using False by (simp add: last_addAuditEntry) (simp add: addAuditEntry_def Let_def)
qed

text \<open>One call whose file write fails, and one whose file write succeeds.\<close>

theorem createVersion_memory_before_storage_witness:
  "fs_fails env_failing \<and> \<not> fs_fails env_1
   \<and> (\<exists>v. new_version id env_failing example_playbook ''first'' ''system'' ''main'' init_state = Inr v
        \<and> fst (createVersion id env_failing example_playbook ''first'' ''system'' ''main'' init_state)
            = Inl (Error ''Version creation failed'' IoError)
        \<and> versions (snd (createVersion id env_failing example_playbook ''first'' ''system'' ''main''
                           init_state)) (version_id v) = Some v
        \<and> branches (snd (createVersion id env_failing example_playbook ''first'' ''system'' ''main''
                           init_state)) (branch_key (playbook_id v) ''main'') = Some (version_id v)
        \<and> storage (snd (createVersion id env_failing example_playbook ''first'' ''system'' ''main''
                          init_state)) = storage init_state
        \<and> auditTrail (snd (createVersion id env_failing example_playbook ''first'' ''system'' ''main''
                             init_state)) = auditTrail init_state)
   \<and> (\<exists>v. new_version id env_1 example_playbook ''first'' ''system'' ''main'' init_state = Inr v
        \<and> fst (createVersion id env_1 example_playbook ''first'' ''system'' ''main'' init_state) = Inr v
        \<and> branches state_1 (branch_key (playbook_id v) ''main'') = Some (version_id v)
        \<and> storage state_1 = (storage init_state)(version_id v @ ''.json'' \<mapsto> v)
        \<and> action (last (auditTrail state_1)) = ''create_version'')"
proof -
  have f: "fs_fails env_failing" "\<not> fs_fails env_1"
    by (simp_all add: env_failing_def env_1_def)
  have "\<not> isl (new_version id env_failing example_playbook ''first'' ''system'' ''main'' init_state)"
    by code_simp
  then obtain v where
    v: "new_version id env_failing example_playbook ''first'' ''system'' ''main'' init_state = Inr v"
    by (cases "new_version id env_failing example_playbook ''first'' ''system'' ''main'' init_state")
       simp_all
  have "\<not> isl (new_version id env_1 example_playbook ''first'' ''system'' ''main'' init_state)"
    by code_simp
  then obtain w where
    w: "new_version id env_1 example_playbook ''first'' ''system'' ''main'' init_state = Inr w"
    by (cases "new_version id env_1 example_playbook ''first'' ''system'' ''main'' init_state")
       simp_all
  show ?thesis
    using createVersion_memory_before_storage [OF v] createVersion_memory_before_storage [OF w] f v w
    unfolding state_1_def by blast
qed

text \<open>The claim as the specification states it fails: with a file write that fails, the
  branch pointer has been moved to the new version and no file holds that version.\<close>

theorem createVersion_pointer_moved_without_file:
  "isl (fst (createVersion id env_failing example_playbook ''first'' ''system'' ''main'' init_state))
   \<and> branches (snd (createVersion id env_failing example_playbook ''first'' ''system'' ''main''
                      init_state)) ''pb1:main'' = Some ''v_a_9''
   \<and> storage (snd (createVersion id env_failing example_playbook ''first'' ''system'' ''main''
                     init_state)) ''v_a_9.json'' = None"
proof -
  have a: "isl (fst (createVersion id env_failing example_playbook ''first'' ''system'' ''main'' init_state))"
    by code_simp
  have b: "branches (snd (createVersion id env_failing example_playbook ''first'' ''system'' ''main''
                      init_state)) ''pb1:main'' = Some ''v_a_9''"
    by code_simp
  have c: "storage (snd (createVersion id env_failing example_playbook ''first'' ''system'' ''main''
                     init_state)) ''v_a_9.json'' = None"
    by code_simp
  show ?thesis using a b c by simp
qed

section \<open>Claims about the approval gates\<close>

lemma svc_admin_privileged:
  "isPrivilegedAccount ''svc_admin'' \<and> \<not> isHighlyPrivileged ''svc_admin''"
  by code_simp

lemma gate_step_untriggered: "\<not> gate_triggered g \<Longrightarrow> gate_step d g = d"
  by (simp add: gate_step_def)

text \<open>A value whose field can be read is neither \<open>undefined\<close> nor \<open>null\<close>, and then every
  field of it can be read.\<close>

lemma get_prop_defined: "get_prop v a = Inr x \<Longrightarrow> \<exists>y. get_prop v b = Inr y"
  by (cases "(v, a)" rule: get_prop.cases) simp_all

lemma get_prop_not_null: "j \<noteq> JNull \<Longrightarrow> \<exists>y. get_prop (Some j) b = Inr y"
  by (cases j) simp_all

text \<open>The gates of the scenario: with the three fields of the playbook readable, the other
  gates returning untriggered, the array of gates is built, and the loop over it leaves a
  decision at \<open>level_1\<close> with the \<open>privileged_account\<close> and the \<open>risk_score\<close> gate.\<close>

lemma scenario_gates:
  assumes threshold: "high_risk_score (required_for cfg) = 80"
      and restricted: "certain_techniques (required_for cfg) = [''T1098'']"
      and use_case: "get_prop (Some playbook) ''use_case'' = Inr use_case"
      and risk_model: "get_prop use_case ''risk_model'' = Inr risk_model"
      and score: "get_prop risk_model ''risk_score'' = Inr (Some (JNum 85))"
      and techniques: "get_prop use_case ''mitre_techniques'' = Inr (Some (JArr [JStr ''T1110'']))"
      and fields: "get_prop use_case ''normalized_fields'' = Inr normalized_fields"
      and username: "get_prop normalized_fields ''username'' = Inr (Some (JStr ''svc_admin''))"
      and asset: "checkCriticalAssetGate playbook = Inr critical"
      and actions: "checkActionGate cfg playbook = Inr act"
      and criticality: "checkAssetCriticalityGate N playbook = Inr crit"
  shows "checkPrivilegedAccountGate playbook
           = Inr \<lparr>gate_name = ''privileged_account'', gate_triggered = True, gate_level = level_1,
                  gate_reason = ''Privileged account detected: svc_admin''\<rparr>"
    and "checkRiskScoreGate N cfg playbook
           = Inr \<lparr>gate_name = ''risk_score'', gate_triggered = True, gate_level = level_1,
                  gate_reason = ''High risk score: 85 (threshold: 80)''\<rparr>"
    and "checkTechniqueGate cfg playbook
           = Inr \<lparr>gate_name = ''technique'', gate_triggered = False, gate_level = level_1,
                  gate_reason = []\<rparr>"
    and "check_gates N cfg e playbook
           = Inr [\<lparr>gate_name = ''privileged_account'', gate_triggered = True, gate_level = level_1,
                   gate_reason = ''Privileged account detected: svc_admin''\<rparr>,
                  critical,
                  \<lparr>gate_name = ''risk_score'', gate_triggered = True, gate_level = level_1,
                   gate_reason = ''High risk score: 85 (threshold: 80)''\<rparr>,
                  \<lparr>gate_name = ''technique'', gate_triggered = False, gate_level = level_1,
                   gate_reason = []\<rparr>,
                  act, checkBusinessHoursGate cfg e, crit]"
proof -
  have shown: "show_int 85 = ''85''" "show_int 80 = ''80''"
    by code_simp+
  show priv: "checkPrivilegedAccountGate playbook
           = Inr \<lparr>gate_name = ''privileged_account'', gate_triggered = True, gate_level = level_1,
                  gate_reason = ''Privileged account detected: svc_admin''\<rparr>"
    using use_case fields username svc_admin_privileged
    by (simp add: checkPrivilegedAccountGate_def bindE_def template_def)
  show risk: "checkRiskScoreGate N cfg playbook
           = Inr \<lparr>gate_name = ''risk_score'', gate_triggered = True, gate_level = level_1,
                  gate_reason = ''High risk score: 85 (threshold: 80)''\<rparr>"
    using use_case risk_model score threshold shown
    by (simp add: checkRiskScoreGate_def bindE_def template_def)
  show tech: "checkTechniqueGate cfg playbook
           = Inr \<lparr>gate_name = ''technique'', gate_triggered = False, gate_level = level_1,
                  gate_reason = []\<rparr>"
    using use_case techniques restricted
    by (simp add: checkTechniqueGate_def bindE_def)
  show "check_gates N cfg e playbook
           = Inr [\<lparr>gate_name = ''privileged_account'', gate_triggered = True, gate_level = level_1,
                   gate_reason = ''Privileged account detected: svc_admin''\<rparr>,
                  critical,
                  \<lparr>gate_name = ''risk_score'', gate_triggered = True, gate_level = level_1,
                   gate_reason = ''High risk score: 85 (threshold: 80)''\<rparr>,
                  \<lparr>gate_name = ''technique'', gate_triggered = False, gate_level = level_1,
                   gate_reason = []\<rparr>,
                  act, checkBusinessHoursGate cfg e, crit]"
    unfolding check_gates_def priv risk tech asset actions criticality
    by (simp add: bindE_def)
qed

lemma scenario_loop:
  assumes "\<not> gate_triggered critical" and "\<not> gate_triggered act"
      and "\<not> gate_triggered hours" and "\<not> gate_triggered crit"
  shows "foldl gate_step
           \<lparr>d_requires_approval = False, d_approval_level = None, d_gates_triggered = [],
            d_auto_approve = False, d_reason = [], d_approval_id = None, d_expires_at = None\<rparr>
           [\<lparr>gate_name = ''privileged_account'', gate_triggered = True, gate_level = level_1,
             gate_reason = ''Privileged account detected: svc_admin''\<rparr>,
            critical,
            \<lparr>gate_name = ''risk_score'', gate_triggered = True, gate_level = level_1,
             gate_reason = ''High risk score: 85 (threshold: 80)''\<rparr>,
            \<lparr>gate_name = ''technique'', gate_triggered = False, gate_level = level_1,
             gate_reason = []\<rparr>,
            act, hours, crit]
         = \<lparr>d_requires_approval = True, d_approval_level = Some level_1,
            d_gates_triggered =
              [\<lparr>gate_name = ''privileged_account'', gate_triggered = True, gate_level = level_1,
                gate_reason = ''Privileged account detected: svc_admin''\<rparr>,
               \<lparr>gate_name = ''risk_score'', gate_triggered = True, gate_level = level_1,
                gate_reason = ''High risk score: 85 (threshold: 80)''\<rparr>],
            d_auto_approve = False, d_reason = [], d_approval_id = None, d_expires_at = None\<rparr>"
  using assms
  by (simp add: gate_step_untriggered) (simp add: gate_step_def getApprovalLevelPriority_def)

text \<open>Without \<open>use_case.use_case_metadata\<close> the summary of the request cannot be built: the
  same evaluation throws, and the store is as it was.\<close>

lemma evaluateApprovalGates_without_metadata:
  assumes threshold: "high_risk_score (required_for cfg) = 80"
      and restricted: "certain_techniques (required_for cfg) = [''T1098'']"
      and use_case: "get_prop (Some playbook) ''use_case'' = Inr use_case"
      and risk_model: "get_prop use_case ''risk_model'' = Inr risk_model"
      and score: "get_prop risk_model ''risk_score'' = Inr (Some (JNum 85))"
      and techniques: "get_prop use_case ''mitre_techniques'' = Inr (Some (JArr [JStr ''T1110'']))"
      and fields: "get_prop use_case ''normalized_fields'' = Inr normalized_fields"
      and username: "get_prop normalized_fields ''username'' = Inr (Some (JStr ''svc_admin''))"
      and metadata: "get_prop use_case ''use_case_metadata'' = Inr use_case_metadata"
      and absent: "use_case_metadata = None \<or> use_case_metadata = Some JNull"
      and not_null: "executionContext \<noteq> Some JNull"
      and asset: "checkCriticalAssetGate playbook = Inr critical" "\<not> gate_triggered critical"
      and actions: "checkActionGate cfg playbook = Inr act" "\<not> gate_triggered act"
      and hours: "\<not> gate_triggered (checkBusinessHoursGate cfg e)"
      and criticality: "checkAssetCriticalityGate N playbook = Inr crit" "\<not> gate_triggered crit"
  shows "evaluateApprovalGates N cfg e playbook executionContext st
           = (Inl (Error ''Approval gate evaluation failed'' TypeError), st)"
proof -
  note gates = scenario_gates(4) [OF threshold restricted use_case risk_model score techniques
      fields username asset(1) actions(1) criticality(1), where e = e]
  note loop = scenario_loop [OF asset(2) actions(2) hours criticality(2)]
  from get_prop_defined [OF use_case] obtain pid pname where
    top: "get_prop (Some playbook) ''playbook_id'' = Inr pid"
         "get_prop (Some playbook) ''playbook_name'' = Inr pname"
    by blast
  have "(case executionContext of None \<Rightarrow> JObj [] | Some c \<Rightarrow> c) \<noteq> JNull"
    using not_null by (cases executionContext) simp_all
  from get_prop_not_null [OF this] obtain u where
    u: "get_prop (Some (case executionContext of None \<Rightarrow> JObj [] | Some c \<Rightarrow> c)) ''user'' = Inr u"
    by blast
  have category: "get_prop use_case_metadata ''category'' = Inl TypeError"
    using absent by auto
  have summary: "createPlaybookSummary playbook = Inl TypeError"
    using top use_case metadata category by (simp add: createPlaybookSummary_def bindE_def)
  have request: "createApprovalRequest cfg e d playbook
                   (case executionContext of None \<Rightarrow> JObj [] | Some c \<Rightarrow> c) st = Inl TypeError" for d
    using top u summary by (simp add: createApprovalRequest_def bindE_def)
  show ?thesis
    unfolding evaluateApprovalGates_def Let_def gates sum.case loop
    by (simp add: request)
qed

lemma evaluateApprovalGates_three_field_playbook:
  "evaluateApprovalGates no_string_number example_config gate_env_1 three_field_playbook None
     empty_gate_state
   = (Inl (Error ''Approval gate evaluation failed'' TypeError), empty_gate_state)"
  by code_simp



section \<open>Claims about the approval requests\<close>









text \<open>
  C8, as the code has it. \<open>rejectRequest\<close> does not look at \<open>reason\<close>: on a pending request
  and with an approver of the roster of the request's level, the call with no reason returns
  the request with status \<open>rejected\<close> and \<open>rejection_reason\<close> undefined, and stores it. The
  reason is required one layer up: the route of the server answers 400 when the reason is
  absent or empty, without calling \<open>rejectRequest\<close>, so the request stays as it is.
\<close>

theorem rejectRequest_without_reason:
  assumes stored: "map_of (approvalStore st) (Some approvalId) = Some r"
      and is_pending: "status r = pending"
      and authorized: "isValidApprover cfg approver (approval_level r)"
  shows "fst (rejectRequest cfg e approvalId approver None st)
           = Inr (r\<lparr>status := rejected, rejected_by := Some approver,
                    rejected_at := Some (now e), rejection_reason := None\<rparr>)
         \<and> map_of (approvalStore (snd (rejectRequest cfg e approvalId approver None st)))
               (Some approvalId)
           = Some (r\<lparr>status := rejected, rejected_by := Some approver,
                      rejected_at := Some (now e), rejection_reason := None\<rparr>)
         \<and> post_reject cfg e approvalId (Some approver) None st
           = (Status_400 ''Approver and reason are required'', st)
         \<and> post_reject cfg e approvalId (Some approver) (Some []) st
           = (Status_400 ''Approver and reason are required'', st)"
  using assms by (simp add: rejectRequest_def post_reject_def Let_def update_conv')

theorem rejectRequest_without_reason_witness:
  "(\<exists>r. map_of (approvalStore example_gate_state) (Some ''r-1'') = Some r \<and> status r = pending
       \<and> isValidApprover example_config ''team_lead'' (approval_level r)
       \<and> fst (rejectRequest example_config gate_env_2 ''r-1'' ''team_lead'' None example_gate_state)
           = Inr (r\<lparr>status := rejected, rejected_by := Some ''team_lead'',
                    rejected_at := Some (now gate_env_2), rejection_reason := None\<rparr>)
       \<and> post_reject example_config gate_env_2 ''r-1'' (Some ''team_lead'') None example_gate_state
           = (Status_400 ''Approver and reason are required'', example_gate_state))"
proof -
  have "map_of (approvalStore example_gate_state) (Some ''r-1'') \<noteq> None" by code_simp
  then obtain r where r: "map_of (approvalStore example_gate_state) (Some ''r-1'') = Some r" by blast
  have "map_option status (map_of (approvalStore example_gate_state) (Some ''r-1'')) = Some pending"
    by code_simp
  then have p: "status r = pending" using r by simp
  have "map_option (\<lambda>r. isValidApprover example_config ''team_lead'' (approval_level r))
          (map_of (approvalStore example_gate_state) (Some ''r-1'')) = Some True"
    by code_simp
  then have a: "isValidApprover example_config ''team_lead'' (approval_level r)" using r by simp
  show ?thesis
    using rejectRequest_without_reason [OF r p a, of gate_env_2] r p a by blast
qed

text \<open>The claim as the specification states it fails: the call with no reason does not
  throw, and the stored request is \<open>rejected\<close> afterwards.\<close>

theorem rejectRequest_accepts_missing_reason:
  "map_option status (map_of (approvalStore example_gate_state) (Some ''r-1'')) = Some pending
   \<and> \<not> isl (fst (rejectRequest example_config gate_env_2 ''r-1'' ''team_lead'' None
                    example_gate_state))
   \<and> map_option status
        (map_of (approvalStore (snd (rejectRequest example_config gate_env_2 ''r-1'' ''team_lead''
                                       None example_gate_state))) (Some ''r-1'')) = Some rejected"
proof -
  have a: "map_option status (map_of (approvalStore example_gate_state) (Some ''r-1'')) = Some pending"
    by code_simp
  have b: "\<not> isl (fst (rejectRequest example_config gate_env_2 ''r-1'' ''team_lead'' None
                    example_gate_state))"
    by code_simp
  have c: "map_option status
        (map_of (approvalStore (snd (rejectRequest example_config gate_env_2 ''r-1'' ''team_lead''
                                       None example_gate_state))) (Some ''r-1'')) = Some rejected"
    by code_simp
  show ?thesis using a b c by simp
qed

end
